theory Spec2Isabelle
  imports Complex_Main
begin

section \<open>Numbers, arrays and errors\<close>

text \<open>
  The entries of the Butcher tableaus are the binary64 numbers that the source stores:
  each literal is rounded to binary64, and each quotient, sum and difference that the
  source writes is rounded as Python rounds it. A literal written with an exponent
  (\<open>0.96...e-1\<close>) is written here with the decimal point moved, and a literal whose
  value is an integer (\<open>0.0\<close>, \<open>1.0\<close>, \<open>60.0\<close>) as that integer.

  The local interpolation is evaluated on arrays of arbitrary reals, in exact
  arithmetic: a literal of \<open>evaluate\<close> denotes its decimal value and \<open>+\<close>, \<open>-\<close>, \<open>*\<close>,
  \<open>**\<close> are exact. The order in which the product of the weights with the stage
  derivatives is summed is not the source's to fix, and what is proved of \<open>evaluate\<close>
  does not depend on the rounding. The seven weight polynomials are given a second
  time as binary64 evaluates them, for their values at the right end of the segment.

  A one-dimensional array of shape \<open>(state,)\<close> is a \<open>real list\<close>; the array \<open>k\<close> of
  shape \<open>(7, state)\<close> is the list of its seven rows.

  Division by zero raises nothing in JAX: the quotient is infinite or NaN, and so is
  every component of what is computed from it. The model returns \<open>Inl NonFinite\<close>
  there. The array operations reject operands whose shapes are not the declared
  ones whatever their values are, so the model checks the shapes first and returns
  \<open>Inl ShapeMismatch\<close>.
\<close>

datatype error = InvalidTableau | ShapeMismatch | NonFinite

type_synonym array = "real list"

text \<open>
  \<open>w @ k\<close> for a weight vector \<open>w\<close> of shape \<open>(s,)\<close> and an array \<open>k\<close> of shape
  \<open>(s, n)\<close>, given by its \<open>s\<close> rows: the array of shape \<open>(n,)\<close> whose entry \<open>j\<close> is
  the sum over the stages \<open>i\<close> of \<open>w[i] * k[i][j]\<close>, that is the product of \<open>w\<close> with
  column \<open>j\<close> of \<open>k\<close>.
\<close>

definition matmul :: "real list \<Rightarrow> array list \<Rightarrow> array" where
  "matmul w k = map (\<lambda>col. sum_list (map2 (*) w col)) (transpose k)"

text \<open>
  Modelled from the spec: \<open>vector_tree_dot\<close> of module \<open>_solver/base.py\<close>, which is
  not among the sources. It is the spec's \<open>combine_stages(weights, stages)\<close>, the sum
  over the stages of \<open>weights[i] * stages[i]\<close>, here on a state of one array leaf.
\<close>

definition vector_tree_dot :: "real list \<Rightarrow> array list \<Rightarrow> array" where
  "vector_tree_dot w k = matmul w k"

text \<open>
  Modelled from the spec: \<open>linear_rescale\<close> of module \<open>_misc.py\<close>, which is not among
  the sources. The spec gives the rescaled variable as \<open>(t - t0) / (t1 - t0)\<close>; a
  zero divisor leaves no finite value. The interpolation below takes the rescaling
  as a parameter, so what is proved of it does not depend on this definition.
\<close>

definition linear_rescale :: "real \<Rightarrow> real \<Rightarrow> real \<Rightarrow> real option" where
  "linear_rescale ta t tb =
     (if tb - ta = 0 then None else Some ((t - ta) / (tb - ta)))"


section \<open>Binary64 numbers\<close>

text \<open>
  Python's floats are binary64. A float literal is the binary64 number nearest to the
  decimal written, and \<open>x / y\<close>, \<open>x + y\<close>, \<open>x - y\<close>, \<open>x * y\<close> of two floats or integers
  are the binary64 numbers nearest to the exact results.
\<close>

text \<open>The number of binary digits of a natural number.\<close>

fun bitlength :: "nat \<Rightarrow> nat" where
  "bitlength n = (if n = 0 then 0 else Suc (bitlength (n div 2)))"

declare bitlength.simps [simp del]

text \<open>
  The binary exponent of a non-zero real \<open>x\<close>, the integer \<open>n\<close> with
  \<open>2^n \<le> |x| < 2^(n+1)\<close> (lemma \<open>exponent_eq\<close> below), computed from bit lengths.
\<close>

definition exponent :: "real \<Rightarrow> int" where
  "exponent x =
     (if 1 \<le> \<bar>x\<bar> then int (bitlength (nat \<lfloor>\<bar>x\<bar>\<rfloor>)) - 1
      else - int (bitlength (nat (\<lceil>1 / \<bar>x\<bar>\<rceil> - 1))))"

text \<open>The integer nearest to \<open>x\<close>, a tie going to the even one.\<close>

definition round_half_even :: "real \<Rightarrow> int" where
  "round_half_even x =
     (let n = \<lfloor>x\<rfloor>; r = x - of_int n
      in if r < 1 / 2 then n else if 1 / 2 < r then n + 1 else if even n then n else n + 1)"

text \<open>
  The binary64 number nearest to \<open>x\<close>, ties to even: 53 significant binary digits,
  and multiples of \<open>2^-1074\<close> below the normal range. Beyond the largest finite
  binary64 number the source has an infinity; \<open>binary64\<close> is not used there.
\<close>

definition binary64 :: "real \<Rightarrow> real" where
  "binary64 x =
     (if x = 0 then 0
      else let q = max (exponent x - 52) (- 1074)
        in of_int (round_half_even (x / 2 powi q)) * 2 powi q)"

text \<open>
  The arithmetic of two binary64 numbers. Every divisor that the source writes is a
  non-zero literal, and \<open>fdiv\<close> is used on those only.
\<close>

definition fadd :: "real \<Rightarrow> real \<Rightarrow> real" where
  "fadd x y = binary64 (x + y)"

definition fsub :: "real \<Rightarrow> real \<Rightarrow> real" where
  "fsub x y = binary64 (x - y)"

definition fmul :: "real \<Rightarrow> real \<Rightarrow> real" where
  "fmul x y = binary64 (x * y)"

definition fdiv :: "real \<Rightarrow> real \<Rightarrow> real" where
  "fdiv x y = binary64 (x / y)"

text \<open>
  The sum of the entries of an array added one after the other from the left, each
  addition in binary64, as \<open>sum\<close> and, on an array of seven entries, \<open>np.sum\<close> add.
\<close>

definition sum_binary64 :: "real list \<Rightarrow> real" where
  "sum_binary64 xs = foldl fadd 0 xs"


section \<open>Butcher tableaus\<close>

text \<open>
  The class \<open>ButcherTableau\<close> itself (\<open>runge_kutta.py\<close>) is not among the sources;
  its fields are those the three constructor calls name. The newer generation
  (\<open>_solver\<close>) calls them \<open>a_lower\<close>, \<open>b_sol\<close>, \<open>b_error\<close>, \<open>c\<close>, the older one
  (\<open>solver\<close>) \<open>alpha\<close>, \<open>beta\<close>, \<open>c_sol\<close>, \<open>c_error\<close>.
\<close>

record ButcherTableau =
  a_lower :: "real list list"
  b_sol :: "real list"
  b_error :: "real list"
  c :: "real list"

record ButcherTableau_old =
  alpha :: "real list"
  beta :: "real list list"
  c_sol :: "real list"
  c_error :: "real list"

text \<open>\<open>_tsit5_tableau\<close> of \<open>_solver/tsit5.py\<close>.\<close>

definition tsit5_tableau :: ButcherTableau where
  "tsit5_tableau = \<lparr>
     a_lower = [
       [fdiv 161 1000],
       [- binary64 0.008480655492356988544426874250230774675121177393430391537369234245294192976164141156943,
        binary64 0.3354806554923569885444268742502307746751211773934303915373692342452941929761641411569],
       [binary64 2.897153057105493432130432594192938764924887287701866490314866693455023795137503079289,
        - binary64 6.359448489975074843148159912383825625952700647415626703305928850207288721235210244366,
        binary64 4.362295432869581411017727318190886861027813359713760212991062156752264926097707165077],
       [binary64 5.325864828439256604428877920840511317836476253097040101202360397727981648835607691791,
        - binary64 11.74888356406282787774717033978577296188744178259862899288666928009020615663593781589,
        binary64 7.495539342889836208304604784564358155658679161518186721010132816213648793440552049753,
        - binary64 0.09249506636175524925650207933207191611349983406029535244034750452930469056411389539635],
       [binary64 5.861455442946420028659251486982647890394337666164814434818157239052507339770711679748,
        - binary64 12.92096931784710929170611868178335939541780751955743459166312250439928519268343184452,
        binary64 8.159367898576158643180400794539253485181918321135053305748355423955009222648673734986,
        - binary64 0.07158497328140099722453054252582973869127213147363544882721139659546372402303777878835,
        - binary64 0.02826905039406838290900305721271224146717633626879770007617876201276764571291579142206],
       [binary64 0.09646076681806522951816731316512876333711995238157997181903319145764851595234062815396,
        fdiv 1 100,
        binary64 0.4798896504144995747752495322905965199130404621990332488332634944254542060153074523509,
        binary64 1.379008574103741893192274821856872770756462643091360525934940067397245698027561293331,
        - binary64 3.290069515436080679901047585711363850115683290894936158531296799594813811049925401677,
        binary64 2.324710524099773982415355918398765796109060233222962411944060046314465391054716027841]],
     b_sol = [
       binary64 0.09646076681806522951816731316512876333711995238157997181903319145764851595234062815396,
       fdiv 1 100,
       binary64 0.4798896504144995747752495322905965199130404621990332488332634944254542060153074523509,
       binary64 1.379008574103741893192274821856872770756462643091360525934940067397245698027561293331,
       - binary64 3.290069515436080679901047585711363850115683290894936158531296799594813811049925401677,
       binary64 2.324710524099773982415355918398765796109060233222962411944060046314465391054716027841,
       0],
     b_error = [
       fsub (binary64 0.09646076681806522951816731316512876333711995238157997181903319145764851595234062815396) (binary64 0.09468075576583945807478876255758922856117527357724631226139574065785592789071067303271),
       fsub (fdiv 1 100) (binary64 0.009183565540343253096776363936645313759813746240984095238905939532922955247253608687270),
       fsub (binary64 0.4798896504144995747752495322905965199130404621990332488332634944254542060153074523509) (binary64 0.4877705284247615707855642599631228241516691959761363774365216240304071651579571959813),
       fsub (binary64 1.379008574103741893192274821856872770756462643091360525934940067397245698027561293331) (binary64 1.234297566930478985655109673884237654035539930748192848315425833500484878378061439761),
       fadd (- binary64 3.290069515436080679901047585711363850115683290894936158531296799594813811049925401677) (binary64 2.707712349983525454881109975059321670689605166938197378763992255714444407154902012702),
       fsub (binary64 2.324710524099773982415355918398765796109060233222962411944060046314465391054716027841) (binary64 1.866628418170587035753719399566211498666255505244122593996591602841258328965767580089),
       fdiv (- 1) 66],
     c = [
       fdiv 161 1000,
       fdiv 327 1000,
       fdiv 9 10,
       binary64 0.9800255409045096857298102862870245954942137979563024768854764293221195950761080302604,
       1,
       1] \<rparr>"

text \<open>\<open>_tsit5_tableau\<close> of \<open>solver/tsit5.py\<close>, the older generation.\<close>

definition tsit5_tableau_old :: ButcherTableau_old where
  "tsit5_tableau_old = \<lparr>
     alpha = [
       fdiv 161 1000,
       fdiv 327 1000,
       fdiv 9 10,
       binary64 0.9800255409045096857298102862870245954942137979563024768854764293221195950761080302604,
       1,
       1],
     beta = [
       [fdiv 161 1000],
       [- binary64 0.008480655492356988544426874250230774675121177393430391537369234245294192976164141156943,
        binary64 0.3354806554923569885444268742502307746751211773934303915373692342452941929761641411569],
       [binary64 2.897153057105493432130432594192938764924887287701866490314866693455023795137503079289,
        - binary64 6.359448489975074843148159912383825625952700647415626703305928850207288721235210244366,
        binary64 4.362295432869581411017727318190886861027813359713760212991062156752264926097707165077],
       [binary64 5.325864828439256604428877920840511317836476253097040101202360397727981648835607691791,
        - binary64 11.74888356406282787774717033978577296188744178259862899288666928009020615663593781589,
        binary64 7.495539342889836208304604784564358155658679161518186721010132816213648793440552049753,
        - binary64 0.09249506636175524925650207933207191611349983406029535244034750452930469056411389539635],
       [binary64 5.861455442946420028659251486982647890394337666164814434818157239052507339770711679748,
        - binary64 12.92096931784710929170611868178335939541780751955743459166312250439928519268343184452,
        binary64 8.159367898576158643180400794539253485181918321135053305748355423955009222648673734986,
        - binary64 0.07158497328140099722453054252582973869127213147363544882721139659546372402303777878835,
        - binary64 0.02826905039406838290900305721271224146717633626879770007617876201276764571291579142206],
       [binary64 0.09646076681806522951816731316512876333711995238157997181903319145764851595234062815396,
        fdiv 1 100,
        binary64 0.4798896504144995747752495322905965199130404621990332488332634944254542060153074523509,
        binary64 1.379008574103741893192274821856872770756462643091360525934940067397245698027561293331,
        - binary64 3.290069515436080679901047585711363850115683290894936158531296799594813811049925401677,
        binary64 2.324710524099773982415355918398765796109060233222962411944060046314465391054716027841]],
     c_sol = [
       binary64 0.09646076681806522951816731316512876333711995238157997181903319145764851595234062815396,
       fdiv 1 100,
       binary64 0.4798896504144995747752495322905965199130404621990332488332634944254542060153074523509,
       binary64 1.379008574103741893192274821856872770756462643091360525934940067397245698027561293331,
       - binary64 3.290069515436080679901047585711363850115683290894936158531296799594813811049925401677,
       binary64 2.324710524099773982415355918398765796109060233222962411944060046314465391054716027841,
       0],
     c_error = [
       fsub (binary64 0.09646076681806522951816731316512876333711995238157997181903319145764851595234062815396) (binary64 0.09468075576583945807478876255758922856117527357724631226139574065785592789071067303271),
       fsub (fdiv 1 100) (binary64 0.009183565540343253096776363936645313759813746240984095238905939532922955247253608687270),
       fsub (binary64 0.4798896504144995747752495322905965199130404621990332488332634944254542060153074523509) (binary64 0.4877705284247615707855642599631228241516691959761363774365216240304071651579571959813),
       fsub (binary64 1.379008574103741893192274821856872770756462643091360525934940067397245698027561293331) (binary64 1.234297566930478985655109673884237654035539930748192848315425833500484878378061439761),
       fadd (- binary64 3.290069515436080679901047585711363850115683290894936158531296799594813811049925401677) (binary64 2.707712349983525454881109975059321670689605166938197378763992255714444407154902012702),
       fsub (binary64 2.324710524099773982415355918398765796109060233222962411944060046314465391054716027841) (binary64 1.866628418170587035753719399566211498666255505244122593996591602841258328965767580089),
       fdiv (- 1) 66] \<rparr>"

text \<open>\<open>_dopri5_tableau\<close> of \<open>solver/dopri5.py\<close>.\<close>

definition dopri5_tableau :: ButcherTableau_old where
  "dopri5_tableau = \<lparr>
     alpha = [
       fdiv 1 5,
       fdiv 3 10,
       fdiv 4 5,
       fdiv 8 9,
       1,
       1],
     beta = [
       [fdiv 1 5],
       [fdiv 3 40,
        fdiv 9 40],
       [fdiv 44 45,
        fdiv (- 56) 15,
        fdiv 32 9],
       [fdiv 19372 6561,
        fdiv (- 25360) 2187,
        fdiv 64448 6561,
        fdiv (- 212) 729],
       [fdiv 9017 3168,
        fdiv (- 355) 33,
        fdiv 46732 5247,
        fdiv 49 176,
        fdiv (- 5103) 18656],
       [fdiv 35 384,
        0,
        fdiv 500 1113,
        fdiv 125 192,
        fdiv (- 2187) 6784,
        fdiv 11 84]],
     c_sol = [
       fdiv 35 384,
       0,
       fdiv 500 1113,
       fdiv 125 192,
       fdiv (- 2187) 6784,
       fdiv 11 84,
       0],
     c_error = [
       fsub (fdiv 35 384) (fdiv 1951 21600),
       0,
       fsub (fdiv 500 1113) (fdiv 22642 50085),
       fsub (fdiv 125 192) (fdiv 451 720),
       fsub (fdiv (- 2187) 6784) (fdiv (- 12231) 42400),
       fsub (fdiv 11 84) (fdiv 649 6300),
       fdiv (- 1) 60] \<rparr>"


section \<open>The local interpolation of Tsit5\<close>

text \<open>
  The fields of \<open>_Tsit5Interpolation\<close>. The newer class keeps \<open>t0\<close>, \<open>t1\<close>, \<open>y0\<close>
  and \<open>k\<close>; the older class has the same fields and \<open>y1\<close> besides.
\<close>

record Tsit5Interpolation =
  t0 :: real
  t1 :: real
  y0 :: array
  k :: "array list"

record Tsit5Interpolation_old = Tsit5Interpolation +
  y1 :: array

text \<open>The declared shapes: \<open>y0\<close> of shape \<open>(state,)\<close> and \<open>k\<close> of shape \<open>(7, state)\<close>.\<close>

definition declared_shapes :: "array \<Rightarrow> array list \<Rightarrow> bool" where
  "declared_shapes y ks \<longleftrightarrow> length ks = 7 \<and> list_all (\<lambda>r. length r = length y) ks"

text \<open>\<open>_Tsit5Interpolation.__init__\<close> of \<open>_solver/tsit5.py\<close>: \<open>del y1\<close>.\<close>

definition Tsit5Interpolation_init ::
  "real \<Rightarrow> real \<Rightarrow> array \<Rightarrow> array \<Rightarrow> array list \<Rightarrow> Tsit5Interpolation" where
  "Tsit5Interpolation_init ta tb y y' ks = \<lparr>t0 = ta, t1 = tb, y0 = y, k = ks\<rparr>"

text \<open>
  The stacked weights \<open>[b1, b2, b3, b4, b5, b6, b7]\<close> of \<open>evaluate\<close> in
  \<open>_solver/tsit5.py\<close>, as a function of the rescaled variable \<open>t\<close>.
\<close>

definition tsit5_weights :: "real \<Rightarrow> real list" where
  "tsit5_weights t =
     (let b1 = (- 1.0530884977290216)
               * t
               * (t - 1.3299890189751412)
               * (t ^ 2 - 1.4364028541716351 * t + 0.7139816917074209);
          b2 = 0.1017 * t ^ 2 * (t ^ 2 - 2.1966568338249754 * t + 1.2949852507374631);
          b3 = 2.490627285651252793
               * t ^ 2
               * (t ^ 2 - 2.38535645472061657 * t + 1.57803468208092486);
          b4 = (- 16.54810288924490272)
               * (t - 1.21712927295533244)
               * (t - 0.61620406037800089)
               * t ^ 2;
          b5 = 47.37952196281928122
               * (t - 1.203071208372362603)
               * (t - 0.658047292653547382)
               * t ^ 2;
          b6 = (- 34.87065786149660974) * (t - 1.2) * (t - 0.666666666666666667) * t ^ 2;
          b7 = 2.5 * (t - 1) * (t - 0.6) * t ^ 2
      in [b1, b2, b3, b4, b5, b6, b7])"

text \<open>
  \<open>_Tsit5Interpolation.evaluate\<close> of \<open>_solver/tsit5.py\<close>. The query times are
  \<open>ta\<close> and the optional \<open>tb\<close> (the source's parameters \<open>t0\<close> and \<open>t1\<close>);
  \<open>left\<close> is deleted on entry. The first argument stands for \<open>linear_rescale\<close>.
\<close>

function evaluate ::
  "(real \<Rightarrow> real \<Rightarrow> real \<Rightarrow> real option) \<Rightarrow> Tsit5Interpolation
     \<Rightarrow> real \<Rightarrow> real option \<Rightarrow> bool \<Rightarrow> error + array" where
  "evaluate rescale self ta (Some tb) left =
     (case evaluate rescale self tb None True of
        Inl e \<Rightarrow> Inl e
      | Inr a \<Rightarrow>
          (case evaluate rescale self ta None True of
             Inl e \<Rightarrow> Inl e
           | Inr b \<Rightarrow> Inr (map2 (-) a b)))"
| "evaluate rescale self ta None left =
     (if \<not> declared_shapes (y0 self) (k self) then Inl ShapeMismatch
      else case rescale (t0 self) ta (t1 self) of
          None \<Rightarrow> Inl NonFinite
        | Some t \<Rightarrow>
            Inr (map2 (+) (y0 self) (vector_tree_dot (tsit5_weights t) (k self))))"
  by pat_completeness auto
termination
  by (relation "measure (\<lambda>(rescale, self, ta, tb, left). case tb of None \<Rightarrow> 0 | Some u \<Rightarrow> 1)")
     auto

text \<open>The stacked weights of \<open>evaluate\<close> in \<open>solver/tsit5.py\<close>, the older generation.\<close>

definition tsit5_weights_old :: "real \<Rightarrow> real list" where
  "tsit5_weights_old t =
     (let b1 = (- 1.0530884977290216)
               * t
               * (t - 1.3299890189751412)
               * (t ^ 2 - 1.4364028541716351 * t + 0.7139816917074209);
          b2 = 0.1017 * t ^ 2 * (t ^ 2 - 2.1966568338249754 * t + 1.2949852507374631);
          b3 = 2.490627285651252793
               * t ^ 2
               * (t ^ 2 - 2.38535645472061657 * t + 1.57803468208092486);
          b4 = (- 16.54810288924490272)
               * (t - 1.21712927295533244)
               * (t - 0.61620406037800089)
               * t ^ 2;
          b5 = 47.37952196281928122
               * (t - 1.203071208372362603)
               * (t - 0.658047292653547382)
               * t ^ 2;
          b6 = (- 34.87065786149660974) * (t - 1.2) * (t - 0.666666666666666667) * t ^ 2;
          b7 = 2.5 * (t - 1) * (t - 0.6) * t ^ 2
      in [b1, b2, b3, b4, b5, b6, b7])"

text \<open>
  The divisor \<open>_div\<close> (here \<open>d\<close>), \<open>jnp.where(t0 == self.t0, 1, self.t1 - self.t0)\<close> of the older
  \<open>evaluate\<close>, at the query time \<open>ta\<close>.
\<close>

definition rescale_div_old :: "Tsit5Interpolation_old \<Rightarrow> real \<Rightarrow> real" where
  "rescale_div_old self ta = (if ta = t0 self then 1 else t1 self - t0 self)"

text \<open>\<open>_Tsit5Interpolation.evaluate\<close> of \<open>solver/tsit5.py\<close>.\<close>

function evaluate_old :: "Tsit5Interpolation_old \<Rightarrow> real \<Rightarrow> real option \<Rightarrow> error + array" where
  "evaluate_old self ta (Some tb) =
     (case evaluate_old self tb None of
        Inl e \<Rightarrow> Inl e
      | Inr a \<Rightarrow>
          (case evaluate_old self ta None of
             Inl e \<Rightarrow> Inl e
           | Inr b \<Rightarrow> Inr (map2 (-) a b)))"
| "evaluate_old self ta None =
     (if \<not> declared_shapes (y0 self) (k self) then Inl ShapeMismatch
      else let d = rescale_div_old self ta
        in if d = 0 then Inl NonFinite
           else let t = (ta - t0 self) / d
             in Inr (map2 (+) (y0 self) (matmul (tsit5_weights_old t) (k self))))"
  by pat_completeness auto
termination
  by (relation "measure (\<lambda>(self, ta, tb). case tb of None \<Rightarrow> 0 | Some u \<Rightarrow> 1)") auto

text \<open>
  The stacked weights of \<open>evaluate\<close> in \<open>_solver/tsit5.py\<close> as binary64 evaluates
  them on a binary64 rescaled variable \<open>t\<close>: the literals rounded, the operations in
  the order in which Python takes them, each rounded; \<open>t ** 2\<close> is the rounded square.
\<close>

definition tsit5_weights_binary64 :: "real \<Rightarrow> real list" where
  "tsit5_weights_binary64 t =
     (let b1 = fmul
                 (fmul
                   (fmul (- binary64 1.0530884977290216) t)
                   (fsub t (binary64 1.3299890189751412)))
                 (fadd
                   (fsub (fmul t t) (fmul (binary64 1.4364028541716351) t))
                   (binary64 0.7139816917074209));
          b2 = fmul
                 (fmul (binary64 0.1017) (fmul t t))
                 (fadd
                   (fsub (fmul t t) (fmul (binary64 2.1966568338249754) t))
                   (binary64 1.2949852507374631));
          b3 = fmul
                 (fmul (binary64 2.490627285651252793) (fmul t t))
                 (fadd
                   (fsub (fmul t t) (fmul (binary64 2.38535645472061657) t))
                   (binary64 1.57803468208092486));
          b4 = fmul
                 (fmul
                   (fmul
                     (- binary64 16.54810288924490272)
                     (fsub t (binary64 1.21712927295533244)))
                   (fsub t (binary64 0.61620406037800089)))
                 (fmul t t);
          b5 = fmul
                 (fmul
                   (fmul
                     (binary64 47.37952196281928122)
                     (fsub t (binary64 1.203071208372362603)))
                   (fsub t (binary64 0.658047292653547382)))
                 (fmul t t);
          b6 = fmul
                 (fmul
                   (fmul (- binary64 34.87065786149660974) (fsub t (binary64 1.2)))
                   (fsub t (binary64 0.666666666666666667)))
                 (fmul t t);
          b7 = fmul
                 (fmul (fmul (binary64 2.5) (fsub t 1)) (fsub t (binary64 0.6)))
                 (fmul t t)
      in [b1, b2, b3, b4, b5, b6, b7])"


section \<open>The construction of a tableau, as far as the spec gives it\<close>

text \<open>
  The coupling matrix \<open>a\<close> of the spec, strictly lower-triangular: its row 0 is
  empty, and the rows below it are the \<open>a_lower\<close> (\<open>beta\<close>) of the source.
\<close>

definition coupling_matrix :: "real list list \<Rightarrow> real list list" where
  "coupling_matrix al = [] # al"

text \<open>
  Modelled from the spec: the validation at the construction of a tableau
  (\<open>ButcherTableau\<close> of \<open>runge_kutta.py\<close>, not among the sources), on the fields as
  the source gives them. For a stage count \<open>s\<close> and the FSAL flag, construction fails
  with \<open>InvalidTableau\<close> if \<open>a\<close> is not strictly lower-triangular in shape (\<open>a[i]\<close>
  must have exactly \<open>i\<close> entries, 0-indexed), if \<open>len(c) != s\<close>, or if the lengths
  of \<open>b_sol\<close> and \<open>b_error\<close> do not match \<open>s\<close> (\<open>s + 1\<close> for FSAL). The spec does not
  say how many rows \<open>a\<close> has; it is taken to have one row for each weight.
\<close>

definition validate_tableau ::
  "nat \<Rightarrow> bool \<Rightarrow> real list list \<Rightarrow> real list \<Rightarrow> real list \<Rightarrow> real list
     \<Rightarrow> error + unit" where
  "validate_tableau s fsal al cs bs be =
     (let a = coupling_matrix al; n = (if fsal then s + 1 else s)
      in if length a \<noteq> n then Inl InvalidTableau
         else if \<not> list_all (\<lambda>i. length (a ! i) = i) [0..<length a] then Inl InvalidTableau
         else if length cs \<noteq> s then Inl InvalidTableau
         else if length bs \<noteq> n then Inl InvalidTableau
         else if length be \<noteq> n then Inl InvalidTableau
         else Inr ())"


section \<open>Auxiliary facts\<close>

lemmas tsit5_sel = tsit5_tableau_def ButcherTableau.select_convs
lemmas tsit5_old_sel = tsit5_tableau_old_def ButcherTableau_old.select_convs
lemmas dopri5_sel = dopri5_tableau_def ButcherTableau_old.select_convs

lemma dot_zero_weights: "\<forall>w\<in>set ws. w = 0 \<Longrightarrow> sum_list (map2 (*) ws col) = (0::real)"
proof (induction ws arbitrary: col)
  case Nil
  then show ?case by simp
next
  case (Cons w ws)
  then show ?case by (cases col) simp_all
qed

lemma add_zero_array: "map2 (+) y (replicate (length y) (0::real)) = y"
  by (induction y) simp_all

text \<open>The columns of an array given by its rows, all of length \<open>n\<close>.\<close>

lemma transpose_rect:
  assumes "ks \<noteq> []" and "list_all (\<lambda>r. length r = n) ks"
  shows "transpose ks = map (\<lambda>j. map (\<lambda>i. ks ! i ! j) [0..<length ks]) [0..<n]"
proof -
  have rows: "\<And>i. i < length ks \<Longrightarrow> length (ks ! i) = n"
    using assms(2) by (simp add: list_all_length)
  from assms(1) have "ks = [] \<Longrightarrow> n = 0" by simp
  from transpose_rectangle [OF this rows] show ?thesis .
qed

lemma transpose_declared:
  assumes "declared_shapes y ks"
  shows "transpose ks = map (\<lambda>j. map (\<lambda>i. ks ! i ! j) [0..<7]) [0..<length y]"
proof -
  from assms have "ks \<noteq> []" and "list_all (\<lambda>r. length r = length y) ks" and "length ks = 7"
    by (auto simp add: declared_shapes_def)
  from transpose_rect [OF this(1,2)] this(3) show ?thesis by simp
qed

lemma matmul_zero_weights:
  assumes "declared_shapes y ks" and "\<forall>w\<in>set ws. w = 0"
  shows "matmul ws ks = replicate (length y) 0"
proof -
  have "matmul ws ks = map (\<lambda>col. 0) (transpose ks)"
    unfolding matmul_def using assms(2) by (simp add: dot_zero_weights)
  also have "\<dots> = replicate (length y) 0"
    by (simp add: transpose_declared [OF assms(1)] map_replicate_const)
  finally show ?thesis .
qed

lemma tsit5_weights_0: "tsit5_weights 0 = [0, 0, 0, 0, 0, 0, 0]"
  by (simp add: tsit5_weights_def)

lemma tsit5_weights_old_0: "tsit5_weights_old 0 = [0, 0, 0, 0, 0, 0, 0]"
  by (simp add: tsit5_weights_old_def)


lemma linear_rescale_left: "ta \<noteq> tb \<Longrightarrow> linear_rescale ta ta tb = Some 0"
  by (simp add: linear_rescale_def)

lemma linear_rescale_right: "ta \<noteq> tb \<Longrightarrow> linear_rescale ta tb tb = Some 1"
  by (simp add: linear_rescale_def)

lemma evaluate_at_zero:
  assumes "declared_shapes (y0 s) (k s)" and "rescale (t0 s) ta (t1 s) = Some 0"
  shows "evaluate rescale s ta None left = Inr (y0 s)"
  using assms
  by (simp add: vector_tree_dot_def tsit5_weights_0 matmul_zero_weights [where y = "y0 s"]
      add_zero_array)

lemma evaluate_old_left:
  assumes "declared_shapes (y0 s) (k s)"
  shows "evaluate_old s (t0 s) None = Inr (y0 s)"
  using assms
  by (simp add: rescale_div_old_def tsit5_weights_old_0 matmul_zero_weights [where y = "y0 s"]
      add_zero_array)



lemma tsit5_weights_1_last: "last (tsit5_weights 1) = 0 \<and> last (b_sol tsit5_tableau) = 0"
  by (simp only: tsit5_sel) (simp add: tsit5_weights_def)

text \<open>A last weight 0 drops the last stage from the weighted sum.\<close>

lemma dot_snoc_zero:
  "length w = length col \<Longrightarrow>
     sum_list (map2 (*) (w @ [0]) (col @ [x])) = sum_list (map2 (*) w (col::real list))"
  by simp

lemma matmul_snoc_zero:
  assumes "declared_shapes y ks" and "length w = 6"
  shows "matmul (w @ [0]) ks = matmul w (butlast ks)"
proof -
  from assms(1) have len: "length ks = 7" and rows: "list_all (\<lambda>r. length r = length y) ks"
    by (simp_all add: declared_shapes_def)
  from len have ne: "butlast ks \<noteq> []" by (cases ks) auto
  from rows have rows': "list_all (\<lambda>r. length r = length y) (butlast ks)"
    by (auto simp add: list_all_iff dest: in_set_butlastD)
  have cols: "map (\<lambda>i. ks ! i ! j) [0..<7] = map (\<lambda>i. butlast ks ! i ! j) [0..<6] @ [ks ! 6 ! j]"
    for j
  proof -
    have "map (\<lambda>i. butlast ks ! i ! j) [0..<6] = map (\<lambda>i. ks ! i ! j) [0..<6]"
      using len by (simp add: nth_butlast)
    moreover have "[0..<7] = [0..<6] @ [6]" by (simp add: upt_rec)
    ultimately show ?thesis by simp
  qed
  have "matmul (w @ [0]) ks
      = map (\<lambda>j. sum_list (map2 (*) (w @ [0])
            (map (\<lambda>i. butlast ks ! i ! j) [0..<6] @ [ks ! 6 ! j]))) [0..<length y]"
    by (simp add: matmul_def transpose_declared [OF assms(1)] cols o_def)
  also have "\<dots> = map (\<lambda>j. sum_list (map2 (*) w (map (\<lambda>i. butlast ks ! i ! j) [0..<6])))
                    [0..<length y]"
    using assms(2) by (simp only: dot_snoc_zero length_map length_upt)
  also have "\<dots> = matmul w (butlast ks)"
    using len by (simp add: matmul_def transpose_rect [OF ne rows'] o_def)
  finally show ?thesis .
qed

lemma tsit5_b_sol_split:
  "b_sol tsit5_tableau = last (a_lower tsit5_tableau) @ [0]
   \<and> length (last (a_lower tsit5_tableau)) = 6"
  by (simp only: tsit5_sel) simp

lemma tsit5_tableaus_equal:
  "alpha tsit5_tableau_old = c tsit5_tableau
   \<and> beta tsit5_tableau_old = a_lower tsit5_tableau
   \<and> c_sol tsit5_tableau_old = b_sol tsit5_tableau
   \<and> c_error tsit5_tableau_old = b_error tsit5_tableau"
  by (simp only: tsit5_sel tsit5_old_sel)


subsection \<open>Rounding to binary64\<close>

text \<open>
  \<open>binary64\<close> is evaluated through \<open>binary64_nearest\<close> and \<open>binary64_tie\<close>: a
  binary64 number \<open>v = m * 2^q\<close> with \<open>2^52 \<le> |m| < 2^53\<close> is the value at \<open>x\<close> when \<open>x\<close>
  has the binary exponent \<open>q + 52\<close> and \<open>v\<close> is less than half a unit \<open>2^q\<close> away from
  \<open>x\<close>, or exactly half a unit with \<open>m\<close> even.
\<close>

lemma bitlength_eq: "2 ^ n \<le> m \<Longrightarrow> m < 2 ^ Suc n \<Longrightarrow> bitlength m = Suc n"
proof (induction n arbitrary: m)
  case 0
  then have "m = 1" by simp
  then show ?case by (simp add: bitlength.simps)
next
  case (Suc n)
  from Suc.prems have "2 ^ n \<le> m div 2" and "m div 2 < 2 ^ Suc n" and "m \<noteq> 0"
    by auto
  with Suc.IH [of "m div 2"] show ?case
    by (subst bitlength.simps) simp
qed

lemma exponent_eq:
  assumes "2 powi n \<le> \<bar>x\<bar>" and "\<bar>x\<bar> < 2 powi (n + 1)"
  shows "exponent x = n"
proof (cases "0 \<le> n")
  case True
  define p where "p = nat n"
  with True have n: "n = int p" by simp
  from assms have lo: "2 ^ p \<le> \<bar>x\<bar>" and hi: "\<bar>x\<bar> < 2 ^ Suc p"
    by (simp_all add: n power_int_add)
  from lo have one: "1 \<le> \<bar>x\<bar>"
    using one_le_power [of "2::real" p] by linarith
  have "(2::int) ^ p \<le> \<lfloor>\<bar>x\<bar>\<rfloor>"
    using lo by (simp add: le_floor_iff)
  then have a: "2 ^ p \<le> nat \<lfloor>\<bar>x\<bar>\<rfloor>"
    by (simp add: le_nat_iff)
  have "\<lfloor>\<bar>x\<bar>\<rfloor> < (2::int) ^ Suc p"
    using hi by (simp add: floor_less_iff)
  then have b: "nat \<lfloor>\<bar>x\<bar>\<rfloor> < 2 ^ Suc p"
    by (simp add: nat_less_iff)
  from bitlength_eq [OF a b] one show ?thesis
    by (simp add: exponent_def n)
next
  case False
  define p where "p = nat (- n - 1)"
  with False have n: "n = - int (Suc p)" by simp
  have pos: "0 < \<bar>x\<bar>"
    using assms(1) zero_less_power_int [of "2::real" n] by linarith
  have e0: "(2::real) powi n = 1 / 2 ^ Suc p"
    unfolding n by (simp only: power_int_minus power_int_of_nat inverse_eq_divide)
  have "n + 1 = - int p" using n by simp
  then have e1: "(2::real) powi (n + 1) = 1 / 2 ^ p"
    by (simp only: power_int_minus power_int_of_nat inverse_eq_divide)
  from assms(2) have small: "\<bar>x\<bar> < 1 / 2 ^ p"
    by (simp only: e1)
  then have lt1: "\<not> 1 \<le> \<bar>x\<bar>"
    using one_le_power [of "2::real" p] by (smt (verit) divide_le_eq_1_pos zero_less_power)
  from assms(1) have big: "1 / 2 ^ Suc p \<le> \<bar>x\<bar>"
    by (simp only: e0)
  let ?y = "1 / \<bar>x\<bar>"
  from small pos have y_lo: "2 ^ p < ?y"
    by (simp add: field_simps)
  from big pos have y_hi: "?y \<le> 2 ^ Suc p"
    by (simp add: field_simps)
  have c_lo: "(2::int) ^ p < \<lceil>?y\<rceil>"
    using y_lo by (simp add: less_ceiling_iff)
  have "(0::int) < 2 ^ p" by simp
  with c_lo have c0: "0 \<le> \<lceil>?y\<rceil> - 1" by linarith
  from c_lo have "int (2 ^ p) \<le> \<lceil>?y\<rceil> - 1" by simp
  then have a: "2 ^ p \<le> nat (\<lceil>?y\<rceil> - 1)"
    by (simp only: le_nat_iff [OF c0])
  have "\<lceil>?y\<rceil> \<le> (2::int) ^ Suc p"
    using y_hi by (simp add: ceiling_le_iff)
  then have "\<lceil>?y\<rceil> - 1 < int (2 ^ Suc p)" by simp
  then have b: "nat (\<lceil>?y\<rceil> - 1) < 2 ^ Suc p"
    by (simp only: nat_less_iff [OF c0])
  from bitlength_eq [OF a b] lt1 show ?thesis
    by (simp add: exponent_def n)
qed

lemma round_half_even_nearest:
  assumes "\<bar>y - of_int m\<bar> < 1 / 2"
  shows "round_half_even y = m"
proof (cases "of_int m \<le> y")
  case True
  with assms have "\<lfloor>y\<rfloor> = m" by (simp add: floor_eq_iff)
  with True assms show ?thesis by (simp add: round_half_even_def)
next
  case False
  with assms have "\<lfloor>y\<rfloor> = m - 1" by (simp add: floor_eq_iff)
  with False assms show ?thesis by (simp add: round_half_even_def Let_def)
qed

lemma round_half_even_tie:
  assumes "\<bar>y - of_int m\<bar> = 1 / 2" and "even m"
  shows "round_half_even y = m"
proof (cases "of_int m \<le> y")
  case True
  with assms have "\<lfloor>y\<rfloor> = m" by (simp add: floor_eq_iff)
  with True assms show ?thesis by (simp add: round_half_even_def)
next
  case False
  with assms have "\<lfloor>y\<rfloor> = m - 1" by (simp add: floor_eq_iff)
  with False assms show ?thesis by (simp add: round_half_even_def Let_def)
qed

lemma binary64_nearest:
  assumes "v = of_int m * 2 powi q" and "- 1074 \<le> q"
    and "2 powi (q + 52) \<le> \<bar>x\<bar>" and "\<bar>x\<bar> < 2 powi (q + 53)"
    and "\<bar>x - v\<bar> < 2 powi q / 2"
  shows "binary64 x = v"
proof -
  have "exponent x = q + 52"
    using assms(3,4) by (intro exponent_eq) (simp_all add: add.commute add.left_commute)
  then have q: "max (exponent x - 52) (- 1074) = q"
    using assms(2) by simp
  have pos: "(0::real) < 2 powi q" by simp
  have "x / 2 powi q - of_int m = (x - v) / 2 powi q"
    using pos by (simp add: assms(1) field_simps)
  then have "\<bar>x / 2 powi q - of_int m\<bar> = \<bar>x - v\<bar> / 2 powi q"
    using pos by (simp add: abs_divide)
  also have "\<dots> < 1 / 2"
    using assms(5) pos by (simp add: field_simps)
  finally have "round_half_even (x / 2 powi q) = m"
    by (rule round_half_even_nearest)
  moreover have "x \<noteq> 0"
  proof -
    have "(0::real) < 2 powi (q + 52)" by simp
    then have "0 < \<bar>x\<bar>" using assms(3) by (rule less_le_trans)
    then show ?thesis by simp
  qed
  ultimately show ?thesis
    by (simp add: binary64_def q assms(1))
qed

lemma binary64_tie:
  assumes "v = of_int m * 2 powi q" and "- 1074 \<le> q"
    and "2 powi (q + 52) \<le> \<bar>x\<bar>" and "\<bar>x\<bar> < 2 powi (q + 53)"
    and "\<bar>x - v\<bar> = 2 powi q / 2" and "even m"
  shows "binary64 x = v"
proof -
  have "exponent x = q + 52"
    using assms(3,4) by (intro exponent_eq) (simp_all add: add.commute add.left_commute)
  then have q: "max (exponent x - 52) (- 1074) = q"
    using assms(2) by simp
  have pos: "(0::real) < 2 powi q" by simp
  have "x / 2 powi q - of_int m = (x - v) / 2 powi q"
    using pos by (simp add: assms(1) field_simps)
  then have "\<bar>x / 2 powi q - of_int m\<bar> = \<bar>x - v\<bar> / 2 powi q"
    using pos by (simp add: abs_divide)
  also have "\<dots> = 1 / 2"
    using assms(5) pos by (simp add: field_simps)
  finally have "round_half_even (x / 2 powi q) = m"
    using assms(6) by (rule round_half_even_tie)
  moreover have "x \<noteq> 0"
  proof -
    have "(0::real) < 2 powi (q + 52)" by simp
    then have "0 < \<bar>x\<bar>" using assms(3) by (rule less_le_trans)
    then show ?thesis by simp
  qed
  ultimately show ?thesis
    by (simp add: binary64_def q assms(1))
qed

lemma binary64_0: "binary64 0 = 0"
  by (simp add: binary64_def)


subsection \<open>The stored entries and their sums\<close>

lemma tsit5_b_sol_stored:
  "b_sol tsit5_tableau =
     [3475365387981687 / 2 ^ 55, 5764607523034235 / 2 ^ 59, 1080615425392849 / 2 ^ 51, 6210502500474331 / 2 ^ 52, - (7408577921870481 / 2 ^ 51), 2617391362520003 / 2 ^ 50, 0]"
proof -
  have r1: "binary64 (0.09646076681806522951816731316512876333711995238157997181903319145764851595234062815396) = 3475365387981687 / 2 ^ 55"
    by (rule binary64_nearest [where m = "6950730775963374" and q = "- 56"]) simp_all
  have r2: "binary64 (1 / 100) = 5764607523034235 / 2 ^ 59"
    by (rule binary64_nearest [where m = "5764607523034235" and q = "- 59"]) simp_all
  have r3: "binary64 (0.4798896504144995747752495322905965199130404621990332488332634944254542060153074523509) = 1080615425392849 / 2 ^ 51"
    by (rule binary64_nearest [where m = "8644923403142792" and q = "- 54"]) simp_all
  have r4: "binary64 (1.379008574103741893192274821856872770756462643091360525934940067397245698027561293331) = 6210502500474331 / 2 ^ 52"
    by (rule binary64_nearest [where m = "6210502500474331" and q = "- 52"]) simp_all
  have r5: "binary64 (3.290069515436080679901047585711363850115683290894936158531296799594813811049925401677) = 7408577921870481 / 2 ^ 51"
    by (rule binary64_nearest [where m = "7408577921870481" and q = "- 51"]) simp_all
  have r6: "binary64 (2.324710524099773982415355918398765796109060233222962411944060046314465391054716027841) = 2617391362520003 / 2 ^ 50"
    by (rule binary64_nearest [where m = "5234782725040006" and q = "- 51"]) simp_all
  show ?thesis
    by (simp only: tsit5_sel fadd_def fsub_def fmul_def fdiv_def
        r1 r2 r3 r4 r5 r6)
qed

lemma tsit5_b_error_stored:
  "b_error tsit5_tableau =
     [64131656892155 / 2 ^ 55, 470642422820167 / 2 ^ 59, - (141969277081473 / 2 ^ 54), 162930109495479 / 2 ^ 50, - (1311351756664333 / 2 ^ 51), 1031509200783889 / 2 ^ 51, - (1091781727847393 / 2 ^ 56)]"
proof -
  have r1: "binary64 (0.09646076681806522951816731316512876333711995238157997181903319145764851595234062815396) = 3475365387981687 / 2 ^ 55"
    by (rule binary64_nearest [where m = "6950730775963374" and q = "- 56"]) simp_all
  have r2: "binary64 (0.09468075576583945807478876255758922856117527357724631226139574065785592789071067303271) = 852808432772383 / 2 ^ 53"
    by (rule binary64_nearest [where m = "6822467462179064" and q = "- 56"]) simp_all
  have r3: "binary64 ((3475365387981687 / 2 ^ 55) - (852808432772383 / 2 ^ 53)) = 64131656892155 / 2 ^ 55"
    by (rule binary64_nearest [where m = "8208852082195840" and q = "- 62"]) simp_all
  have r4: "binary64 (1 / 100) = 5764607523034235 / 2 ^ 59"
    by (rule binary64_nearest [where m = "5764607523034235" and q = "- 59"]) simp_all
  have r5: "binary64 (0.009183565540343253096776363936645313759813746240984095238905939532922955247253608687270) = 1323491275053517 / 2 ^ 57"
    by (rule binary64_nearest [where m = "5293965100214068" and q = "- 59"]) simp_all
  have r6: "binary64 ((5764607523034235 / 2 ^ 59) - (1323491275053517 / 2 ^ 57)) = 470642422820167 / 2 ^ 59"
    by (rule binary64_nearest [where m = "7530278765122672" and q = "- 63"]) simp_all
  have r7: "binary64 (0.4798896504144995747752495322905965199130404621990332488332634944254542060153074523509) = 1080615425392849 / 2 ^ 51"
    by (rule binary64_nearest [where m = "8644923403142792" and q = "- 54"]) simp_all
  have r8: "binary64 (0.4877705284247615707855642599631228241516691959761363774365216240304071651579571959813) = 8786892680224265 / 2 ^ 54"
    by (rule binary64_nearest [where m = "8786892680224265" and q = "- 54"]) simp_all
  have r9: "binary64 ((1080615425392849 / 2 ^ 51) - (8786892680224265 / 2 ^ 54)) = - (141969277081473 / 2 ^ 54)"
    by (rule binary64_nearest [where m = "- 4543016866607136" and q = "- 59"]) simp_all
  have r10: "binary64 (1.379008574103741893192274821856872770756462643091360525934940067397245698027561293331) = 6210502500474331 / 2 ^ 52"
    by (rule binary64_nearest [where m = "6210502500474331" and q = "- 52"]) simp_all
  have r11: "binary64 (1.234297566930478985655109673884237654035539930748192848315425833500484878378061439761) = 5558782062492415 / 2 ^ 52"
    by (rule binary64_nearest [where m = "5558782062492415" and q = "- 52"]) simp_all
  have r12: "binary64 ((6210502500474331 / 2 ^ 52) - (5558782062492415 / 2 ^ 52)) = 162930109495479 / 2 ^ 50"
    by (rule binary64_nearest [where m = "5213763503855328" and q = "- 55"]) simp_all
  have r13: "binary64 (3.290069515436080679901047585711363850115683290894936158531296799594813811049925401677) = 7408577921870481 / 2 ^ 51"
    by (rule binary64_nearest [where m = "7408577921870481" and q = "- 51"]) simp_all
  have r14: "binary64 (2.707712349983525454881109975059321670689605166938197378763992255714444407154902012702) = 1524306541301537 / 2 ^ 49"
    by (rule binary64_nearest [where m = "6097226165206148" and q = "- 51"]) simp_all
  have r15: "binary64 ((- (7408577921870481 / 2 ^ 51)) + (1524306541301537 / 2 ^ 49)) = - (1311351756664333 / 2 ^ 51)"
    by (rule binary64_nearest [where m = "- 5245407026657332" and q = "- 53"]) simp_all
  have r16: "binary64 (2.324710524099773982415355918398765796109060233222962411944060046314465391054716027841) = 2617391362520003 / 2 ^ 50"
    by (rule binary64_nearest [where m = "5234782725040006" and q = "- 51"]) simp_all
  have r17: "binary64 (1.866628418170587035753719399566211498666255505244122593996591602841258328965767580089) = 4203273524256117 / 2 ^ 51"
    by (rule binary64_nearest [where m = "8406547048512234" and q = "- 52"]) simp_all
  have r18: "binary64 ((2617391362520003 / 2 ^ 50) - (4203273524256117 / 2 ^ 51)) = 1031509200783889 / 2 ^ 51"
    by (rule binary64_nearest [where m = "8252073606271112" and q = "- 54"]) simp_all
  have r19: "binary64 ((- 1) / 66) = - (1091781727847393 / 2 ^ 56)"
    by (rule binary64_nearest [where m = "- 8734253822779144" and q = "- 59"]) simp_all
  show ?thesis
    by (simp only: tsit5_sel fadd_def fsub_def fmul_def fdiv_def
        r1 r2 r3 r4 r5 r6 r7 r8 r9 r10 r11 r12 r13 r14 r15 r16 r17 r18 r19)
qed

lemma dopri5_c_sol_stored:
  "c_sol dopri5_tableau =
     [6567749456581973 / 2 ^ 56, 0, 8092721702372859 / 2 ^ 54, 5864062014805333 / 2 ^ 53, - (5807412962888723 / 2 ^ 54), 4718056752483377 / 2 ^ 55, 0]"
proof -
  have r1: "binary64 (35 / 384) = 6567749456581973 / 2 ^ 56"
    by (rule binary64_nearest [where m = "6567749456581973" and q = "- 56"]) simp_all
  have r2: "binary64 (500 / 1113) = 8092721702372859 / 2 ^ 54"
    by (rule binary64_nearest [where m = "8092721702372859" and q = "- 54"]) simp_all
  have r3: "binary64 (125 / 192) = 5864062014805333 / 2 ^ 53"
    by (rule binary64_nearest [where m = "5864062014805333" and q = "- 53"]) simp_all
  have r4: "binary64 ((- 2187) / 6784) = - (5807412962888723 / 2 ^ 54)"
    by (rule binary64_nearest [where m = "- 5807412962888723" and q = "- 54"]) simp_all
  have r5: "binary64 (11 / 84) = 4718056752483377 / 2 ^ 55"
    by (rule binary64_nearest [where m = "4718056752483377" and q = "- 55"]) simp_all
  show ?thesis
    by (simp only: dopri5_sel fadd_def fsub_def fmul_def fdiv_def
        r1 r2 r3 r4 r5)
qed

lemma dopri5_c_error_stored:
  "c_error dopri5_tableau =
     [14803498775153 / 2 ^ 54, 0, - (51074065854975 / 2 ^ 54), 222052481627295 / 2 ^ 53, - (610853807948295 / 2 ^ 54), 2013037547726241 / 2 ^ 56, - (4803839602528529 / 2 ^ 58)]"
proof -
  have r1: "binary64 (35 / 384) = 6567749456581973 / 2 ^ 56"
    by (rule binary64_nearest [where m = "6567749456581973" and q = "- 56"]) simp_all
  have r2: "binary64 (1951 / 21600) = 6508535461481361 / 2 ^ 56"
    by (rule binary64_nearest [where m = "6508535461481361" and q = "- 56"]) simp_all
  have r3: "binary64 ((6567749456581973 / 2 ^ 56) - (6508535461481361 / 2 ^ 56)) = 14803498775153 / 2 ^ 54"
    by (rule binary64_nearest [where m = "7579391372878336" and q = "- 63"]) simp_all
  have r4: "binary64 (500 / 1113) = 8092721702372859 / 2 ^ 54"
    by (rule binary64_nearest [where m = "8092721702372859" and q = "- 54"]) simp_all
  have r5: "binary64 (22642 / 50085) = 4071897884113917 / 2 ^ 53"
    by (rule binary64_nearest [where m = "8143795768227834" and q = "- 54"]) simp_all
  have r6: "binary64 ((8092721702372859 / 2 ^ 54) - (4071897884113917 / 2 ^ 53)) = - (51074065854975 / 2 ^ 54)"
    by (rule binary64_nearest [where m = "- 6537480429436800" and q = "- 61"]) simp_all
  have r7: "binary64 (125 / 192) = 5864062014805333 / 2 ^ 53"
    by (rule binary64_nearest [where m = "5864062014805333" and q = "- 53"]) simp_all
  have r8: "binary64 (451 / 720) = 2821004766589019 / 2 ^ 52"
    by (rule binary64_nearest [where m = "5642009533178038" and q = "- 53"]) simp_all
  have r9: "binary64 ((5864062014805333 / 2 ^ 53) - (2821004766589019 / 2 ^ 52)) = 222052481627295 / 2 ^ 53"
    by (rule binary64_nearest [where m = "7105679412073440" and q = "- 58"]) simp_all
  have r10: "binary64 ((- 2187) / 6784) = - (5807412962888723 / 2 ^ 54)"
    by (rule binary64_nearest [where m = "- 5807412962888723" and q = "- 54"]) simp_all
  have r11: "binary64 ((- 12231) / 42400) = - (1299139788735107 / 2 ^ 52)"
    by (rule binary64_nearest [where m = "- 5196559154940428" and q = "- 54"]) simp_all
  have r12: "binary64 ((- (5807412962888723 / 2 ^ 54)) - (- (1299139788735107 / 2 ^ 52))) = - (610853807948295 / 2 ^ 54)"
    by (rule binary64_nearest [where m = "- 4886830463586360" and q = "- 57"]) simp_all
  have r13: "binary64 (11 / 84) = 4718056752483377 / 2 ^ 55"
    by (rule binary64_nearest [where m = "4718056752483377" and q = "- 55"]) simp_all
  have r14: "binary64 (649 / 6300) = 7423075957240513 / 2 ^ 56"
    by (rule binary64_nearest [where m = "7423075957240513" and q = "- 56"]) simp_all
  have r15: "binary64 ((4718056752483377 / 2 ^ 55) - (7423075957240513 / 2 ^ 56)) = 2013037547726241 / 2 ^ 56"
    by (rule binary64_nearest [where m = "8052150190904964" and q = "- 58"]) simp_all
  have r16: "binary64 ((- 1) / 60) = - (4803839602528529 / 2 ^ 58)"
    by (rule binary64_nearest [where m = "- 4803839602528529" and q = "- 58"]) simp_all
  show ?thesis
    by (simp only: dopri5_sel fadd_def fsub_def fmul_def fdiv_def
        r1 r2 r3 r4 r5 r6 r7 r8 r9 r10 r11 r12 r13 r14 r15 r16)
qed

lemma tsit5_b_sol_sums:
  "sum_binary64 (b_sol tsit5_tableau) = 4503599627370495 / 2 ^ 52
   \<and> sum_list (b_sol tsit5_tableau) = 576460752303423339 / 2 ^ 59"
proof -
  have p1: "binary64 (0 + (3475365387981687 / 2 ^ 55)) = 3475365387981687 / 2 ^ 55"
    by (rule binary64_nearest [where m = "6950730775963374" and q = "- 56"]) simp_all
  have p2: "binary64 ((3475365387981687 / 2 ^ 55) + (5764607523034235 / 2 ^ 59)) = 7671306716342653 / 2 ^ 56"
    by (rule binary64_nearest [where m = "7671306716342653" and q = "- 56"]) simp_all
  have p3: "binary64 ((7671306716342653 / 2 ^ 56) + (1080615425392849 / 2 ^ 51)) = 1320343760278557 / 2 ^ 51"
    by (rule binary64_nearest [where m = "5281375041114228" and q = "- 53"]) simp_all
  have p4: "binary64 ((1320343760278557 / 2 ^ 51) + (6210502500474331 / 2 ^ 52)) = 8851190021031445 / 2 ^ 52"
    by (rule binary64_nearest [where m = "8851190021031445" and q = "- 52"]) simp_all
  have p5: "binary64 ((8851190021031445 / 2 ^ 52) + (- (7408577921870481 / 2 ^ 51))) = - (5965965822709517 / 2 ^ 52)"
    by (rule binary64_nearest [where m = "- 5965965822709517" and q = "- 52"]) simp_all
  have p6: "binary64 ((- (5965965822709517 / 2 ^ 52)) + (2617391362520003 / 2 ^ 50)) = 4503599627370495 / 2 ^ 52"
    by (rule binary64_nearest [where m = "9007199254740990" and q = "- 53"]) simp_all
  have p7: "binary64 ((4503599627370495 / 2 ^ 52) + 0) = 4503599627370495 / 2 ^ 52"
    by (rule binary64_nearest [where m = "9007199254740990" and q = "- 53"]) simp_all
  have seq: "sum_binary64 (b_sol tsit5_tableau) = 4503599627370495 / 2 ^ 52"
    by (simp only: tsit5_b_sol_stored sum_binary64_def foldl.simps fadd_def
        p1 p2 p3 p4 p5 p6 p7)
  have ex: "sum_list (b_sol tsit5_tableau) = 576460752303423339 / 2 ^ 59"
    by (simp only: tsit5_b_sol_stored) simp
  from seq ex show ?thesis by (rule conjI)
qed

lemma tsit5_b_error_sums:
  "sum_binary64 (b_error tsit5_tableau) = - (9 / 2 ^ 56)
   \<and> sum_list (b_error tsit5_tableau) = - (49 / 2 ^ 59)"
proof -
  have p1: "binary64 (0 + (64131656892155 / 2 ^ 55)) = 64131656892155 / 2 ^ 55"
    by (rule binary64_nearest [where m = "8208852082195840" and q = "- 62"]) simp_all
  have p2: "binary64 ((64131656892155 / 2 ^ 55) + (470642422820167 / 2 ^ 59)) = 1496748933094647 / 2 ^ 59"
    by (rule binary64_nearest [where m = "5986995732378588" and q = "- 61"]) simp_all
  have p3: "binary64 ((1496748933094647 / 2 ^ 59) + (- (141969277081473 / 2 ^ 54))) = - (3046267933512489 / 2 ^ 59)"
    by (rule binary64_nearest [where m = "- 6092535867024978" and q = "- 60"]) simp_all
  have p4: "binary64 ((- (3046267933512489 / 2 ^ 59)) + (162930109495479 / 2 ^ 50)) = 5023371758010797 / 2 ^ 55"
    by (rule binary64_nearest [where m = "5023371758010797" and q = "- 55"]) simp_all
  have p5: "binary64 ((5023371758010797 / 2 ^ 55) + (- (1311351756664333 / 2 ^ 51))) = - (3989564087154633 / 2 ^ 53)"
    by (rule binary64_tie [where m = "- 7979128174309266" and q = "- 54"]) simp_all
  have p6: "binary64 ((- (3989564087154633 / 2 ^ 53)) + (1031509200783889 / 2 ^ 51)) = 136472715980923 / 2 ^ 53"
    by (rule binary64_nearest [where m = "8734253822779072" and q = "- 59"]) simp_all
  have p7: "binary64 ((136472715980923 / 2 ^ 53) + (- (1091781727847393 / 2 ^ 56))) = - (9 / 2 ^ 56)"
    by (rule binary64_nearest [where m = "- 5066549580791808" and q = "- 105"]) simp_all
  have seq: "sum_binary64 (b_error tsit5_tableau) = - (9 / 2 ^ 56)"
    by (simp only: tsit5_b_error_stored sum_binary64_def foldl.simps fadd_def
        p1 p2 p3 p4 p5 p6 p7)
  have ex: "sum_list (b_error tsit5_tableau) = - (49 / 2 ^ 59)"
    by (simp only: tsit5_b_error_stored) simp
  from seq ex show ?thesis by (rule conjI)
qed

lemma dopri5_c_sol_sums:
  "sum_binary64 (c_sol dopri5_tableau) = 4503599627370495 / 2 ^ 52
   \<and> sum_list (c_sol dopri5_tableau) = 72057594037927935 / 2 ^ 56"
proof -
  have p1: "binary64 (0 + (6567749456581973 / 2 ^ 56)) = 6567749456581973 / 2 ^ 56"
    by (rule binary64_nearest [where m = "6567749456581973" and q = "- 56"]) simp_all
  have p2: "binary64 ((6567749456581973 / 2 ^ 56) + 0) = 6567749456581973 / 2 ^ 56"
    by (rule binary64_nearest [where m = "6567749456581973" and q = "- 56"]) simp_all
  have p3: "binary64 ((6567749456581973 / 2 ^ 56) + (8092721702372859 / 2 ^ 54)) = 608416191657397 / 2 ^ 50"
    by (rule binary64_nearest [where m = "4867329533259176" and q = "- 53"]) simp_all
  have p4: "binary64 ((608416191657397 / 2 ^ 50) + (5864062014805333 / 2 ^ 53)) = 2682847887016127 / 2 ^ 51"
    by (rule binary64_tie [where m = "5365695774032254" and q = "- 52"]) simp_all
  have p5: "binary64 ((2682847887016127 / 2 ^ 51) + (- (5807412962888723 / 2 ^ 54))) = 3913842533310073 / 2 ^ 52"
    by (rule binary64_tie [where m = "7827685066620146" and q = "- 53"]) simp_all
  have p6: "binary64 ((3913842533310073 / 2 ^ 52) + (4718056752483377 / 2 ^ 55)) = 4503599627370495 / 2 ^ 52"
    by (rule binary64_nearest [where m = "9007199254740990" and q = "- 53"]) simp_all
  have p7: "binary64 ((4503599627370495 / 2 ^ 52) + 0) = 4503599627370495 / 2 ^ 52"
    by (rule binary64_nearest [where m = "9007199254740990" and q = "- 53"]) simp_all
  have seq: "sum_binary64 (c_sol dopri5_tableau) = 4503599627370495 / 2 ^ 52"
    by (simp only: dopri5_c_sol_stored sum_binary64_def foldl.simps fadd_def
        p1 p2 p3 p4 p5 p6 p7)
  have ex: "sum_list (c_sol dopri5_tableau) = 72057594037927935 / 2 ^ 56"
    by (simp only: dopri5_c_sol_stored) simp
  from seq ex show ?thesis by (rule conjI)
qed

lemma dopri5_c_error_sums:
  "sum_binary64 (c_error dopri5_tableau) = 3 / 2 ^ 58
   \<and> sum_list (c_error dopri5_tableau) = 3 / 2 ^ 58"
proof -
  have p1: "binary64 (0 + (14803498775153 / 2 ^ 54)) = 14803498775153 / 2 ^ 54"
    by (rule binary64_nearest [where m = "7579391372878336" and q = "- 63"]) simp_all
  have p2: "binary64 ((14803498775153 / 2 ^ 54) + 0) = 14803498775153 / 2 ^ 54"
    by (rule binary64_nearest [where m = "7579391372878336" and q = "- 63"]) simp_all
  have p3: "binary64 ((14803498775153 / 2 ^ 54) + (- (51074065854975 / 2 ^ 54))) = - (18135283539911 / 2 ^ 53)"
    by (rule binary64_nearest [where m = "- 4642632586217216" and q = "- 61"]) simp_all
  have p4: "binary64 ((- (18135283539911 / 2 ^ 53)) + (222052481627295 / 2 ^ 53)) = 25489649760923 / 2 ^ 50"
    by (rule binary64_nearest [where m = "6525350338796288" and q = "- 58"]) simp_all
  have p5: "binary64 ((25489649760923 / 2 ^ 50) + (- (610853807948295 / 2 ^ 54))) = - (203019411773527 / 2 ^ 54)"
    by (rule binary64_nearest [where m = "- 6496621176752864" and q = "- 59"]) simp_all
  have p6: "binary64 ((- (203019411773527 / 2 ^ 54)) + (2013037547726241 / 2 ^ 56)) = 1200959900632133 / 2 ^ 56"
    by (rule binary64_nearest [where m = "4803839602528532" and q = "- 58"]) simp_all
  have p7: "binary64 ((1200959900632133 / 2 ^ 56) + (- (4803839602528529 / 2 ^ 58))) = 3 / 2 ^ 58"
    by (rule binary64_nearest [where m = "6755399441055744" and q = "- 109"]) simp_all
  have seq: "sum_binary64 (c_error dopri5_tableau) = 3 / 2 ^ 58"
    by (simp only: dopri5_c_error_stored sum_binary64_def foldl.simps fadd_def
        p1 p2 p3 p4 p5 p6 p7)
  have ex: "sum_list (c_error dopri5_tableau) = 3 / 2 ^ 58"
    by (simp only: dopri5_c_error_stored) simp
  from seq ex show ?thesis by (rule conjI)
qed


subsection \<open>The weights at the right end in binary64\<close>

lemma tsit5_weights_binary64_1:
  "tsit5_weights_binary64 1 =
     [868841346995421 / 2 ^ 53, 2882303761517121 / 2 ^ 58, 8644923403142791 / 2 ^ 54, 6210502500474331 / 2 ^ 52, - (7408577921870485 / 2 ^ 51), 2617391362520003 / 2 ^ 50, 0]"
proof -
  have r1: "binary64 (1.0530884977290216) = 4742688965960577 / 2 ^ 52"
    by (rule binary64_nearest [where m = "4742688965960577" and q = "- 52"]) simp_all
  have r2: "binary64 ((- (4742688965960577 / 2 ^ 52)) * 1) = - (4742688965960577 / 2 ^ 52)"
    by (rule binary64_nearest [where m = "- 4742688965960577" and q = "- 52"]) simp_all
  have r3: "binary64 (1.3299890189751412) = 5989738050263297 / 2 ^ 52"
    by (rule binary64_nearest [where m = "5989738050263297" and q = "- 52"]) simp_all
  have r4: "binary64 (1 - (5989738050263297 / 2 ^ 52)) = - (1486138422892801 / 2 ^ 52)"
    by (rule binary64_nearest [where m = "- 5944553691571204" and q = "- 54"]) simp_all
  have r5: "binary64 ((- (4742688965960577 / 2 ^ 52)) * (- (1486138422892801 / 2 ^ 52))) = 6260141116726229 / 2 ^ 54"
    by (rule binary64_nearest [where m = "6260141116726229" and q = "- 54"]) simp_all
  have r6: "binary64 (1 * 1) = 1"
    by (rule binary64_nearest [where m = "4503599627370496" and q = "- 52"]) simp_all
  have r7: "binary64 (1.4364028541716351) = 6468983358801293 / 2 ^ 52"
    by (rule binary64_nearest [where m = "6468983358801293" and q = "- 52"]) simp_all
  have r8: "binary64 ((6468983358801293 / 2 ^ 52) * 1) = 6468983358801293 / 2 ^ 52"
    by (rule binary64_nearest [where m = "6468983358801293" and q = "- 52"]) simp_all
  have r9: "binary64 (1 - (6468983358801293 / 2 ^ 52)) = - (1965383731430797 / 2 ^ 52)"
    by (rule binary64_nearest [where m = "- 7861534925723188" and q = "- 54"]) simp_all
  have r10: "binary64 (0.7139816917074209) = 3215487680722897 / 2 ^ 52"
    by (rule binary64_nearest [where m = "6430975361445794" and q = "- 53"]) simp_all
  have r11: "binary64 ((- (1965383731430797 / 2 ^ 52)) + (3215487680722897 / 2 ^ 52)) = 312525987323025 / 2 ^ 50"
    by (rule binary64_nearest [where m = "5000415797168400" and q = "- 54"]) simp_all
  have r12: "binary64 ((6260141116726229 / 2 ^ 54) * (312525987323025 / 2 ^ 50)) = 868841346995421 / 2 ^ 53"
    by (rule binary64_nearest [where m = "6950730775963368" and q = "- 56"]) simp_all
  have r13: "binary64 (0.1017) = 7328257313657271 / 2 ^ 56"
    by (rule binary64_nearest [where m = "7328257313657271" and q = "- 56"]) simp_all
  have r14: "binary64 ((7328257313657271 / 2 ^ 56) * 1) = 7328257313657271 / 2 ^ 56"
    by (rule binary64_nearest [where m = "7328257313657271" and q = "- 56"]) simp_all
  have r15: "binary64 (2.1966568338249754) = 2473215724568753 / 2 ^ 50"
    by (rule binary64_nearest [where m = "4946431449137506" and q = "- 51"]) simp_all
  have r16: "binary64 ((2473215724568753 / 2 ^ 50) * 1) = 2473215724568753 / 2 ^ 50"
    by (rule binary64_nearest [where m = "4946431449137506" and q = "- 51"]) simp_all
  have r17: "binary64 (1 - (2473215724568753 / 2 ^ 50)) = - (1347315817726129 / 2 ^ 50)"
    by (rule binary64_nearest [where m = "- 5389263270904516" and q = "- 52"]) simp_all
  have r18: "binary64 (1.2949852507374631) = 5832095092671527 / 2 ^ 52"
    by (rule binary64_nearest [where m = "5832095092671527" and q = "- 52"]) simp_all
  have r19: "binary64 ((- (1347315817726129 / 2 ^ 50)) + (5832095092671527 / 2 ^ 52)) = 442831821767011 / 2 ^ 52"
    by (rule binary64_nearest [where m = "7085309148272176" and q = "- 56"]) simp_all
  have r20: "binary64 ((7328257313657271 / 2 ^ 56) * (442831821767011 / 2 ^ 52)) = 2882303761517121 / 2 ^ 58"
    by (rule binary64_nearest [where m = "5764607523034242" and q = "- 59"]) simp_all
  have r21: "binary64 (2.490627285651252793) = 2804197028894443 / 2 ^ 50"
    by (rule binary64_nearest [where m = "5608394057788886" and q = "- 51"]) simp_all
  have r22: "binary64 ((2804197028894443 / 2 ^ 50) * 1) = 2804197028894443 / 2 ^ 50"
    by (rule binary64_nearest [where m = "5608394057788886" and q = "- 51"]) simp_all
  have r23: "binary64 (2.38535645472061657) = 1342836305078197 / 2 ^ 49"
    by (rule binary64_nearest [where m = "5371345220312788" and q = "- 51"]) simp_all
  have r24: "binary64 ((1342836305078197 / 2 ^ 49) * 1) = 1342836305078197 / 2 ^ 49"
    by (rule binary64_nearest [where m = "5371345220312788" and q = "- 51"]) simp_all
  have r25: "binary64 (1 - (1342836305078197 / 2 ^ 49)) = - (779886351656885 / 2 ^ 49)"
    by (rule binary64_nearest [where m = "- 6239090813255080" and q = "- 52"]) simp_all
  have r26: "binary64 (1.57803468208092486) = 1776709101549343 / 2 ^ 50"
    by (rule binary64_nearest [where m = "7106836406197372" and q = "- 52"]) simp_all
  have r27: "binary64 ((- (779886351656885 / 2 ^ 49)) + (1776709101549343 / 2 ^ 50)) = 216936398235573 / 2 ^ 50"
    by (rule binary64_nearest [where m = "6941964743538336" and q = "- 55"]) simp_all
  have r28: "binary64 ((2804197028894443 / 2 ^ 50) * (216936398235573 / 2 ^ 50)) = 8644923403142791 / 2 ^ 54"
    by (rule binary64_nearest [where m = "8644923403142791" and q = "- 54"]) simp_all
  have r29: "binary64 (16.54810288924490272) = 1164469218838937 / 2 ^ 46"
    by (rule binary64_nearest [where m = "4657876875355748" and q = "- 48"]) simp_all
  have r30: "binary64 (1.21712927295533244) = 2740731470071679 / 2 ^ 51"
    by (rule binary64_nearest [where m = "5481462940143358" and q = "- 52"]) simp_all
  have r31: "binary64 (1 - (2740731470071679 / 2 ^ 51)) = - (488931656386431 / 2 ^ 51)"
    by (rule binary64_nearest [where m = "- 7822906502182896" and q = "- 55"]) simp_all
  have r32: "binary64 ((- (1164469218838937 / 2 ^ 46)) * (- (488931656386431 / 2 ^ 51))) = 4045445677845797 / 2 ^ 50"
    by (rule binary64_nearest [where m = "8090891355691594" and q = "- 51"]) simp_all
  have r33: "binary64 (0.61620406037800089) = 5550272753405103 / 2 ^ 53"
    by (rule binary64_nearest [where m = "5550272753405103" and q = "- 53"]) simp_all
  have r34: "binary64 (1 - (5550272753405103 / 2 ^ 53)) = 3456926501335889 / 2 ^ 53"
    by (rule binary64_nearest [where m = "6913853002671778" and q = "- 54"]) simp_all
  have r35: "binary64 ((4045445677845797 / 2 ^ 50) * (3456926501335889 / 2 ^ 53)) = 6210502500474331 / 2 ^ 52"
    by (rule binary64_nearest [where m = "6210502500474331" and q = "- 52"]) simp_all
  have r36: "binary64 ((6210502500474331 / 2 ^ 52) * 1) = 6210502500474331 / 2 ^ 52"
    by (rule binary64_nearest [where m = "6210502500474331" and q = "- 52"]) simp_all
  have r37: "binary64 (47.37952196281928122) = 3334037460261643 / 2 ^ 46"
    by (rule binary64_nearest [where m = "6668074920523286" and q = "- 47"]) simp_all
  have r38: "binary64 (1.203071208372362603) = 5418151045725945 / 2 ^ 52"
    by (rule binary64_nearest [where m = "5418151045725945" and q = "- 52"]) simp_all
  have r39: "binary64 (1 - (5418151045725945 / 2 ^ 52)) = - (914551418355449 / 2 ^ 52)"
    by (rule binary64_nearest [where m = "- 7316411346843592" and q = "- 55"]) simp_all
  have r40: "binary64 ((3334037460261643 / 2 ^ 46) * (- (914551418355449 / 2 ^ 52))) = - (677047015814055 / 2 ^ 46)"
    by (rule binary64_nearest [where m = "- 5416376126512440" and q = "- 49"]) simp_all
  have r41: "binary64 (0.658047292653547382) = 5927163083973359 / 2 ^ 53"
    by (rule binary64_nearest [where m = "5927163083973359" and q = "- 53"]) simp_all
  have r42: "binary64 (1 - (5927163083973359 / 2 ^ 53)) = 3080036170767633 / 2 ^ 53"
    by (rule binary64_nearest [where m = "6160072341535266" and q = "- 54"]) simp_all
  have r43: "binary64 ((- (677047015814055 / 2 ^ 46)) * (3080036170767633 / 2 ^ 53)) = - (7408577921870485 / 2 ^ 51)"
    by (rule binary64_nearest [where m = "- 7408577921870485" and q = "- 51"]) simp_all
  have r44: "binary64 ((- (7408577921870485 / 2 ^ 51)) * 1) = - (7408577921870485 / 2 ^ 51)"
    by (rule binary64_nearest [where m = "- 7408577921870485" and q = "- 51"]) simp_all
  have r45: "binary64 (34.87065786149660974) = 2453804402362503 / 2 ^ 46"
    by (rule binary64_nearest [where m = "4907608804725006" and q = "- 47"]) simp_all
  have r46: "binary64 (1.2) = 5404319552844595 / 2 ^ 52"
    by (rule binary64_nearest [where m = "5404319552844595" and q = "- 52"]) simp_all
  have r47: "binary64 (1 - (5404319552844595 / 2 ^ 52)) = - (900719925474099 / 2 ^ 52)"
    by (rule binary64_nearest [where m = "- 7205759403792792" and q = "- 55"]) simp_all
  have r48: "binary64 ((- (2453804402362503 / 2 ^ 46)) * (- (900719925474099 / 2 ^ 52))) = 981521760945001 / 2 ^ 47"
    by (rule binary64_nearest [where m = "7852174087560008" and q = "- 50"]) simp_all
  have r49: "binary64 (0.666666666666666667) = 6004799503160661 / 2 ^ 53"
    by (rule binary64_nearest [where m = "6004799503160661" and q = "- 53"]) simp_all
  have r50: "binary64 (1 - (6004799503160661 / 2 ^ 53)) = 3002399751580331 / 2 ^ 53"
    by (rule binary64_nearest [where m = "6004799503160662" and q = "- 54"]) simp_all
  have r51: "binary64 ((981521760945001 / 2 ^ 47) * (3002399751580331 / 2 ^ 53)) = 2617391362520003 / 2 ^ 50"
    by (rule binary64_nearest [where m = "5234782725040006" and q = "- 51"]) simp_all
  have r52: "binary64 ((2617391362520003 / 2 ^ 50) * 1) = 2617391362520003 / 2 ^ 50"
    by (rule binary64_nearest [where m = "5234782725040006" and q = "- 51"]) simp_all
  have r53: "binary64 (2.5) = 5 / 2 ^ 1"
    by (rule binary64_nearest [where m = "5629499534213120" and q = "- 51"]) simp_all
  have r54: "binary64 (1 - 1) = 0"
    by (simp add: binary64_0)
  have r55: "binary64 ((5 / 2 ^ 1) * 0) = 0"
    by (simp add: binary64_0)
  have r56: "binary64 (0.6) = 5404319552844595 / 2 ^ 53"
    by (rule binary64_nearest [where m = "5404319552844595" and q = "- 53"]) simp_all
  have r57: "binary64 (1 - (5404319552844595 / 2 ^ 53)) = 3602879701896397 / 2 ^ 53"
    by (rule binary64_nearest [where m = "7205759403792794" and q = "- 54"]) simp_all
  have r58: "binary64 (0 * (3602879701896397 / 2 ^ 53)) = 0"
    by (simp add: binary64_0)
  have r59: "binary64 (0 * 1) = 0"
    by (simp add: binary64_0)
  show ?thesis
    by (simp only: tsit5_weights_binary64_def Let_def fadd_def fsub_def fmul_def fdiv_def
        r1 r2 r3 r4 r5 r6 r7 r8 r9 r10 r11 r12 r13 r14 r15 r16 r17 r18 r19 r20 r21 r22
        r23 r24 r25 r26 r27 r28 r29 r30 r31 r32 r33 r34 r35 r36 r37 r38 r39 r40 r41 r42
        r43 r44 r45 r46 r47 r48 r49 r50 r51 r52 r53 r54 r55 r56 r57 r58 r59)
qed

subsection \<open>The validation\<close>

text \<open>
  The validation does reject: a tableau without coupling rows, one whose \<open>c\<close> lacks an
  entry and one whose \<open>b_sol\<close> lacks an entry fail with \<open>InvalidTableau\<close>.
\<close>

lemma validate_tableau_rejects:
  "validate_tableau 6 True [] (c tsit5_tableau)
        (b_sol tsit5_tableau) (b_error tsit5_tableau) = Inl InvalidTableau
   \<and> validate_tableau 6 True (a_lower tsit5_tableau) (butlast (c tsit5_tableau))
        (b_sol tsit5_tableau) (b_error tsit5_tableau) = Inl InvalidTableau
   \<and> validate_tableau 6 True (a_lower tsit5_tableau) (c tsit5_tableau)
        (butlast (b_sol tsit5_tableau)) (b_error tsit5_tableau) = Inl InvalidTableau"
  by (simp only: tsit5_sel) (simp add: validate_tableau_def coupling_matrix_def upt_rec)


section \<open>Properties of the tableaus\<close>

text \<open>
  C1, as the code has it: the solution weights that the tableaus store sum to 1 only
  up to rounding. Added from the left in binary64, the seven weights of each of the
  three tableaus give \<open>1 - 2^-52\<close> (\<open>0.9999999999999998\<close>); the exact sum of the stored
  values is \<open>1 - 149 * 2^-59\<close> for Tsit5 (\<open>b_sol\<close>, and \<open>c_sol\<close> in the older
  generation) and \<open>1 - 2^-56\<close> for Dopri5.
\<close>

theorem solution_weights_sum:
  "sum_binary64 (b_sol tsit5_tableau) = 1 - 1 / 2 ^ 52
   \<and> sum_binary64 (c_sol tsit5_tableau_old) = 1 - 1 / 2 ^ 52
   \<and> sum_binary64 (c_sol dopri5_tableau) = 1 - 1 / 2 ^ 52
   \<and> sum_list (b_sol tsit5_tableau) = 1 - 149 / 2 ^ 59
   \<and> sum_list (c_sol tsit5_tableau_old) = 1 - 149 / 2 ^ 59
   \<and> sum_list (c_sol dopri5_tableau) = 1 - 1 / 2 ^ 56"
proof -
  have old: "c_sol tsit5_tableau_old = b_sol tsit5_tableau"
    by (simp only: tsit5_tableaus_equal)
  have a: "(4503599627370495 / 2 ^ 52::real) = 1 - 1 / 2 ^ 52" by simp
  have b: "(576460752303423339 / 2 ^ 59::real) = 1 - 149 / 2 ^ 59" by simp
  have d: "(72057594037927935 / 2 ^ 56::real) = 1 - 1 / 2 ^ 56" by simp
  from tsit5_b_sol_sums dopri5_c_sol_sums show ?thesis
    by (simp only: old a b d)
qed

text \<open>
  C1 as stated fails: the stored solution weights of the Tsit5 tableau do not sum to
  1, neither added from the left in binary64 nor exactly.
\<close>

theorem tsit5_b_sol_sum_counterexample:
  "sum_binary64 (b_sol tsit5_tableau) \<noteq> 1 \<and> sum_list (b_sol tsit5_tableau) \<noteq> 1"
  by (simp only: tsit5_b_sol_sums) simp

text \<open>
  C4: the Tsit5 tableau is first-same-as-last. The last entry of \<open>c\<close> is 1, the last
  row of \<open>a_lower\<close> is the first six entries of \<open>b_sol\<close>, and the last entry of
  \<open>b_sol\<close> is 0. Hence the time \<open>ta + c[-1] * (tb - ta)\<close> of the final stage of a step
  from \<open>ta\<close> to \<open>tb\<close> is \<open>tb\<close>, and the combination of the first six stage
  derivatives by the last row of \<open>a_lower\<close> is the combination of all seven by
  \<open>b_sol\<close>: the final stage is evaluated at the candidate solution.
\<close>

theorem tsit5_fsal:
  "last (c tsit5_tableau) = 1
   \<and> last (a_lower tsit5_tableau) = take 6 (b_sol tsit5_tableau)
   \<and> last (b_sol tsit5_tableau) = 0
   \<and> (\<forall>ta tb. ta + last (c tsit5_tableau) * (tb - ta) = tb)
   \<and> (\<forall>y ks. declared_shapes y ks \<longrightarrow>
        vector_tree_dot (last (a_lower tsit5_tableau)) (butlast ks)
          = vector_tree_dot (b_sol tsit5_tableau) ks)"
proof -
  have facts: "last (c tsit5_tableau) = 1
   \<and> last (a_lower tsit5_tableau) = take 6 (b_sol tsit5_tableau)
   \<and> last (b_sol tsit5_tableau) = 0"
    by (simp only: tsit5_sel) simp
  then have time: "\<forall>ta tb. ta + last (c tsit5_tableau) * (tb - ta) = tb"
    by simp
  have "vector_tree_dot (last (a_lower tsit5_tableau)) (butlast ks)
          = vector_tree_dot (b_sol tsit5_tableau) ks" if "declared_shapes y ks" for y ks
    using matmul_snoc_zero [OF that, of "last (a_lower tsit5_tableau)"] tsit5_b_sol_split
    by (simp add: vector_tree_dot_def)
  with facts time show ?thesis by blast
qed

theorem tsit5_fsal_witness:
  "declared_shapes [1, 2] [[1, 0], [0, 1], [2, 2], [3, 1], [1, 3], [5, 8], [13, 21]]
   \<and> vector_tree_dot (last (a_lower tsit5_tableau)) (butlast [[1, 0], [0, 1], [2, 2], [3, 1], [1, 3], [5, 8], [13, 21]])
     = vector_tree_dot (b_sol tsit5_tableau) [[1, 0], [0, 1], [2, 2], [3, 1], [1, 3], [5, 8], [13, 21]]"
proof -
  have "declared_shapes [1, 2] [[1, 0], [0, 1], [2, 2], [3, 1], [1, 3], [5, 8], [13, 21]]"
    by (simp add: declared_shapes_def)
  with tsit5_fsal show ?thesis by blast
qed

text \<open>
  C5: each of the three tableaus satisfies the shape constraints of the spec, for the
  stage count \<open>s = 6\<close> and the FSAL flag. The coupling matrix, whose rows below the
  first are the \<open>a_lower\<close> (\<open>beta\<close>) of the source, has rows 0 to 6 with as many
  entries as the index of the row; \<open>c\<close> (\<open>alpha\<close>) has \<open>s = 6\<close> entries, and \<open>b_sol\<close>
  and \<open>b_error\<close> (\<open>c_sol\<close>, \<open>c_error\<close>) have \<open>s + 1 = 7\<close>, the seven stages of the
  documentation. So construction does not fail with \<open>InvalidTableau\<close>.
\<close>

theorem tableau_shapes:
  "validate_tableau 6 True (a_lower tsit5_tableau) (c tsit5_tableau)
        (b_sol tsit5_tableau) (b_error tsit5_tableau) = Inr ()
   \<and> map length (coupling_matrix (a_lower tsit5_tableau)) = [0, 1, 2, 3, 4, 5, 6]
   \<and> length (c tsit5_tableau) = 6
   \<and> length (b_sol tsit5_tableau) = 7 \<and> length (b_error tsit5_tableau) = 7
   \<and> validate_tableau 6 True (beta tsit5_tableau_old) (alpha tsit5_tableau_old)
        (c_sol tsit5_tableau_old) (c_error tsit5_tableau_old) = Inr ()
   \<and> map length (coupling_matrix (beta tsit5_tableau_old)) = [0, 1, 2, 3, 4, 5, 6]
   \<and> length (alpha tsit5_tableau_old) = 6
   \<and> length (c_sol tsit5_tableau_old) = 7 \<and> length (c_error tsit5_tableau_old) = 7
   \<and> validate_tableau 6 True (beta dopri5_tableau) (alpha dopri5_tableau)
        (c_sol dopri5_tableau) (c_error dopri5_tableau) = Inr ()
   \<and> map length (coupling_matrix (beta dopri5_tableau)) = [0, 1, 2, 3, 4, 5, 6]
   \<and> length (alpha dopri5_tableau) = 6
   \<and> length (c_sol dopri5_tableau) = 7 \<and> length (c_error dopri5_tableau) = 7"
proof -
  have new: "validate_tableau 6 True (a_lower tsit5_tableau) (c tsit5_tableau)
        (b_sol tsit5_tableau) (b_error tsit5_tableau) = Inr ()
      \<and> map length (coupling_matrix (a_lower tsit5_tableau)) = [0, 1, 2, 3, 4, 5, 6]
      \<and> length (c tsit5_tableau) = 6
      \<and> length (b_sol tsit5_tableau) = 7 \<and> length (b_error tsit5_tableau) = 7"
    by (simp only: tsit5_sel) (simp add: validate_tableau_def coupling_matrix_def upt_rec)
  then have old: "validate_tableau 6 True (beta tsit5_tableau_old) (alpha tsit5_tableau_old)
        (c_sol tsit5_tableau_old) (c_error tsit5_tableau_old) = Inr ()
      \<and> map length (coupling_matrix (beta tsit5_tableau_old)) = [0, 1, 2, 3, 4, 5, 6]
      \<and> length (alpha tsit5_tableau_old) = 6
      \<and> length (c_sol tsit5_tableau_old) = 7 \<and> length (c_error tsit5_tableau_old) = 7"
    by (simp only: tsit5_tableaus_equal)
  have dopri: "validate_tableau 6 True (beta dopri5_tableau) (alpha dopri5_tableau)
        (c_sol dopri5_tableau) (c_error dopri5_tableau) = Inr ()
      \<and> map length (coupling_matrix (beta dopri5_tableau)) = [0, 1, 2, 3, 4, 5, 6]
      \<and> length (alpha dopri5_tableau) = 6
      \<and> length (c_sol dopri5_tableau) = 7 \<and> length (c_error dopri5_tableau) = 7"
    by (simp only: dopri5_sel) (simp add: validate_tableau_def coupling_matrix_def upt_rec)
  from new old dopri show ?thesis by blast
qed

text \<open>
  C9, as the code has it: the error weights that the tableaus store sum to 0 only up
  to rounding. Added from the left in binary64, the weights of Tsit5 (\<open>b_error\<close>, and
  \<open>c_error\<close> in the older generation) give \<open>- 9 * 2^-56\<close>, about \<open>- 1.25e-16\<close>, and
  those of Dopri5 give \<open>3 * 2^-58\<close>, about \<open>1.04e-17\<close>; the exact sums of the stored
  values are \<open>- 49 * 2^-59\<close> and \<open>3 * 2^-58\<close>.
\<close>

theorem error_weights_sum:
  "sum_binary64 (b_error tsit5_tableau) = - 9 / 2 ^ 56
   \<and> sum_binary64 (c_error tsit5_tableau_old) = - 9 / 2 ^ 56
   \<and> sum_binary64 (c_error dopri5_tableau) = 3 / 2 ^ 58
   \<and> sum_list (b_error tsit5_tableau) = - 49 / 2 ^ 59
   \<and> sum_list (c_error tsit5_tableau_old) = - 49 / 2 ^ 59
   \<and> sum_list (c_error dopri5_tableau) = 3 / 2 ^ 58"
proof -
  have old: "c_error tsit5_tableau_old = b_error tsit5_tableau"
    by (simp only: tsit5_tableaus_equal)
  from tsit5_b_error_sums dopri5_c_error_sums show ?thesis
    by (simp only: old) simp
qed

text \<open>
  C9 as stated fails: the stored error weights of the Tsit5 tableau do not sum to 0,
  neither added from the left in binary64 nor exactly.
\<close>

theorem tsit5_b_error_sum_counterexample:
  "sum_binary64 (b_error tsit5_tableau) \<noteq> 0 \<and> sum_list (b_error tsit5_tableau) \<noteq> 0"
  by (simp only: tsit5_b_error_sums) simp


section \<open>Properties of the interpolation\<close>

text \<open>
  C2, as the code has it: at the right endpoint \<open>evaluate\<close> returns
  \<open>y0 + sum_i b_i(1) * k[i]\<close>. The seventh weight polynomial is 0 at 1, as the seventh
  entry of \<open>b_sol\<close> is. Evaluated in binary64 at \<open>1.0\<close>, the fourth, sixth and seventh
  polynomial give the stored entries of \<open>b_sol\<close>, and the first, second, third and
  fifth miss theirs by \<open>- 3 * 2^-55\<close>, \<open>7 * 2^-59\<close>, \<open>- 2^-54\<close> and \<open>- 2^-49\<close>, at most
  \<open>1.8e-15\<close>.
\<close>

theorem evaluate_right_endpoint:
  assumes "declared_shapes (y0 s) (k s)" and "rescale (t0 s) (t1 s) (t1 s) = Some 1"
  shows "evaluate rescale s (t1 s) None left
           = Inr (map2 (+) (y0 s) (vector_tree_dot (tsit5_weights 1) (k s)))
       \<and> last (tsit5_weights 1) = last (b_sol tsit5_tableau)
       \<and> map2 (-) (tsit5_weights_binary64 1) (b_sol tsit5_tableau)
           = [- (3 / 2 ^ 55), 7 / 2 ^ 59, - (1 / 2 ^ 54), 0, - (1 / 2 ^ 49), 0, 0]"
proof (intro conjI)
  show "evaluate rescale s (t1 s) None left
           = Inr (map2 (+) (y0 s) (vector_tree_dot (tsit5_weights 1) (k s)))"
    using assms by simp
  show "last (tsit5_weights 1) = last (b_sol tsit5_tableau)"
    by (simp only: tsit5_weights_1_last)
  show "map2 (-) (tsit5_weights_binary64 1) (b_sol tsit5_tableau)
           = [- (3 / 2 ^ 55), 7 / 2 ^ 59, - (1 / 2 ^ 54), 0, - (1 / 2 ^ 49), 0, 0]"
    by (simp only: tsit5_weights_binary64_1 tsit5_b_sol_stored) simp
qed

theorem evaluate_right_endpoint_witness:
  "declared_shapes [1, 2] [[1, 0], [0, 1], [2, 2], [3, 1], [1, 3], [5, 8], [13, 21]]
   \<and> linear_rescale 0 1 1 = Some 1
   \<and> evaluate linear_rescale
        \<lparr>t0 = 0, t1 = 1, y0 = [1, 2],
         k = [[1, 0], [0, 1], [2, 2], [3, 1], [1, 3], [5, 8], [13, 21]]\<rparr> 1 None True
       = Inr (map2 (+) [1, 2] (vector_tree_dot (tsit5_weights 1) [[1, 0], [0, 1], [2, 2], [3, 1], [1, 3], [5, 8], [13, 21]]))"
  using evaluate_right_endpoint [of
      "\<lparr>t0 = 0, t1 = 1, y0 = [1, 2],
         k = [[1, 0], [0, 1], [2, 2], [3, 1], [1, 3], [5, 8], [13, 21]]\<rparr>"
      linear_rescale True]
  by (simp add: declared_shapes_def linear_rescale_def del: evaluate.simps)

text \<open>
  C2 as stated fails: on the segment from 0 to 1 with \<open>y0 = [0]\<close>, first stage
  derivative \<open>[1]\<close> and the other six \<open>[0]\<close>, \<open>evaluate\<close> at the right endpoint returns
  the value of \<open>b1\<close> at 1, which is not the first entry of \<open>b_sol\<close>.
\<close>
theorem evaluate_right_endpoint_counterexample:
  "evaluate linear_rescale
     \<lparr>t0 = 0, t1 = 1, y0 = [0], k = [[1], [0], [0], [0], [0], [0], [0]]\<rparr> 1 None True
   \<noteq> Inr (map2 (+) [0]
          (vector_tree_dot (b_sol tsit5_tableau) [[1], [0], [0], [0], [0], [0], [0]]))"
  by (simp only: tsit5_b_sol_stored)
     (simp add: linear_rescale_def declared_shapes_def vector_tree_dot_def matmul_def
        tsit5_weights_def)

text \<open>
  C3: every weight polynomial vanishes at the rescaled variable 0, in both
  generations, so \<open>evaluate\<close> at the left endpoint \<open>t0\<close> of the segment returns \<open>y0\<close>,
  for every \<open>y0\<close> and \<open>k\<close> of the declared shapes. The newer \<open>evaluate\<close> rescales by
  \<open>linear_rescale\<close>, which takes the left endpoint to 0.
\<close>

theorem evaluate_left_endpoint:
  assumes "declared_shapes (y0 s) (k s)" and "rescale (t0 s) (t0 s) (t1 s) = Some 0"
    and "declared_shapes (y0 s') (k s')"
  shows "tsit5_weights 0 = replicate 7 0 \<and> tsit5_weights_old 0 = replicate 7 0
     \<and> evaluate rescale s (t0 s) None left = Inr (y0 s)
     \<and> evaluate_old s' (t0 s') None = Inr (y0 s')"
  using assms evaluate_at_zero [of s rescale "t0 s" left] evaluate_old_left [of s']
  by (simp add: tsit5_weights_0 tsit5_weights_old_0 numeral_eq_Suc
      del: evaluate.simps evaluate_old.simps)

theorem evaluate_left_endpoint_witness:
  "declared_shapes [1, 2] [[1, 0], [0, 1], [2, 2], [3, 1], [1, 3], [5, 8], [13, 21]]
   \<and> linear_rescale 0 0 1 = Some 0
   \<and> evaluate linear_rescale
        \<lparr>t0 = 0, t1 = 1, y0 = [1, 2],
         k = [[1, 0], [0, 1], [2, 2], [3, 1], [1, 3], [5, 8], [13, 21]]\<rparr> 0 None True
       = Inr [1, 2]
   \<and> evaluate_old
        \<lparr>t0 = 0, t1 = 1, y0 = [1, 2],
         k = [[1, 0], [0, 1], [2, 2], [3, 1], [1, 3], [5, 8], [13, 21]], y1 = [4, 5]\<rparr> 0 None
       = Inr [1, 2]"
  using evaluate_left_endpoint [of
      "\<lparr>t0 = 0, t1 = 1, y0 = [1, 2],
         k = [[1, 0], [0, 1], [2, 2], [3, 1], [1, 3], [5, 8], [13, 21]]\<rparr>"
      linear_rescale
      "\<lparr>t0 = 0, t1 = 1, y0 = [1, 2],
         k = [[1, 0], [0, 1], [2, 2], [3, 1], [1, 3], [5, 8], [13, 21]], y1 = [4, 5]\<rparr>" True]
  by (simp add: declared_shapes_def linear_rescale_def del: evaluate.simps evaluate_old.simps)

text \<open>
  C6: in both generations the two-argument form \<open>evaluate(ta, tb)\<close> returns
  \<open>evaluate(tb) - evaluate(ta)\<close>, for all query times at which the rescaled variable
  is finite (in the older generation: at which the divisor is not 0, as at all
  query times on a segment of non-zero width); both evaluations then return arrays,
  and so does the difference form.
\<close>

theorem evaluate_difference:
  assumes "declared_shapes (y0 s) (k s)"
    and "rescale (t0 s) ta (t1 s) \<noteq> None" and "rescale (t0 s) tb (t1 s) \<noteq> None"
    and "declared_shapes (y0 s') (k s')"
    and "rescale_div_old s' ta \<noteq> 0" and "rescale_div_old s' tb \<noteq> 0"
  shows "(\<exists>a b. evaluate rescale s tb None True = Inr a
            \<and> evaluate rescale s ta None True = Inr b
            \<and> evaluate rescale s ta (Some tb) left = Inr (map2 (-) a b))
       \<and> (\<exists>a b. evaluate_old s' tb None = Inr a
            \<and> evaluate_old s' ta None = Inr b
            \<and> evaluate_old s' ta (Some tb) = Inr (map2 (-) a b))"
proof
  from assms(2,3) obtain u v where "rescale (t0 s) ta (t1 s) = Some u"
    and "rescale (t0 s) tb (t1 s) = Some v" by auto
  with assms(1) show "\<exists>a b. evaluate rescale s tb None True = Inr a
            \<and> evaluate rescale s ta None True = Inr b
            \<and> evaluate rescale s ta (Some tb) left = Inr (map2 (-) a b)"
    by simp
next
  from assms(4,5,6) show "\<exists>a b. evaluate_old s' tb None = Inr a
            \<and> evaluate_old s' ta None = Inr b
            \<and> evaluate_old s' ta (Some tb) = Inr (map2 (-) a b)"
    by (simp add: Let_def)
qed

theorem evaluate_difference_witness:
  "declared_shapes [1, 2] [[1, 0], [0, 1], [2, 2], [3, 1], [1, 3], [5, 8], [13, 21]]
   \<and> linear_rescale 0 (1 / 4) 1 \<noteq> None \<and> linear_rescale 0 (1 / 2) 1 \<noteq> None
   \<and> rescale_div_old \<lparr>t0 = 0, t1 = 1, y0 = [1, 2],
         k = [[1, 0], [0, 1], [2, 2], [3, 1], [1, 3], [5, 8], [13, 21]], y1 = [4, 5]\<rparr> (1 / 4) \<noteq> 0
   \<and> rescale_div_old \<lparr>t0 = 0, t1 = 1, y0 = [1, 2],
         k = [[1, 0], [0, 1], [2, 2], [3, 1], [1, 3], [5, 8], [13, 21]], y1 = [4, 5]\<rparr> (1 / 2) \<noteq> 0
   \<and> (\<exists>a b. evaluate linear_rescale \<lparr>t0 = 0, t1 = 1, y0 = [1, 2],
         k = [[1, 0], [0, 1], [2, 2], [3, 1], [1, 3], [5, 8], [13, 21]]\<rparr> (1 / 2) None True = Inr a
          \<and> evaluate linear_rescale \<lparr>t0 = 0, t1 = 1, y0 = [1, 2],
         k = [[1, 0], [0, 1], [2, 2], [3, 1], [1, 3], [5, 8], [13, 21]]\<rparr> (1 / 4) None True = Inr b
          \<and> evaluate linear_rescale \<lparr>t0 = 0, t1 = 1, y0 = [1, 2],
         k = [[1, 0], [0, 1], [2, 2], [3, 1], [1, 3], [5, 8], [13, 21]]\<rparr> (1 / 4) (Some (1 / 2)) True = Inr (map2 (-) a b))
   \<and> (\<exists>a b. evaluate_old \<lparr>t0 = 0, t1 = 1, y0 = [1, 2],
         k = [[1, 0], [0, 1], [2, 2], [3, 1], [1, 3], [5, 8], [13, 21]], y1 = [4, 5]\<rparr> (1 / 2) None = Inr a
          \<and> evaluate_old \<lparr>t0 = 0, t1 = 1, y0 = [1, 2],
         k = [[1, 0], [0, 1], [2, 2], [3, 1], [1, 3], [5, 8], [13, 21]], y1 = [4, 5]\<rparr> (1 / 4) None = Inr b
          \<and> evaluate_old \<lparr>t0 = 0, t1 = 1, y0 = [1, 2],
         k = [[1, 0], [0, 1], [2, 2], [3, 1], [1, 3], [5, 8], [13, 21]], y1 = [4, 5]\<rparr> (1 / 4) (Some (1 / 2)) = Inr (map2 (-) a b))"
  using evaluate_difference [of
      "\<lparr>t0 = 0, t1 = 1, y0 = [1, 2],
         k = [[1, 0], [0, 1], [2, 2], [3, 1], [1, 3], [5, 8], [13, 21]]\<rparr>"
      linear_rescale "1 / 4" "1 / 2"
      "\<lparr>t0 = 0, t1 = 1, y0 = [1, 2],
         k = [[1, 0], [0, 1], [2, 2], [3, 1], [1, 3], [5, 8], [13, 21]], y1 = [4, 5]\<rparr>" True]
  by (simp add: declared_shapes_def linear_rescale_def rescale_div_old_def
      del: evaluate.simps evaluate_old.simps)




text \<open>
  C8: the \<open>y1\<close> given to the constructor of the newer generation is discarded, so two
  segments constructed with different \<open>y1\<close> and otherwise equal arguments evaluate
  alike at every query time. In the older generation \<open>y1\<close> is a field, which
  \<open>evaluate\<close> does not read.
\<close>

theorem y1_not_used:
  "evaluate rescale (Tsit5Interpolation_init ta tb y ya ks) t u left
     = evaluate rescale (Tsit5Interpolation_init ta tb y yb ks) t u left
   \<and> evaluate_old (s\<lparr>y1 := ya\<rparr>) t u = evaluate_old (s\<lparr>y1 := yb\<rparr>) t u"
proof -
  have a: "\<And>y'. evaluate_old (s\<lparr>y1 := y'\<rparr>) t None = evaluate_old s t None" for t
    by (simp add: rescale_div_old_def)
  have "\<And>y'. evaluate_old (s\<lparr>y1 := y'\<rparr>) t u = evaluate_old s t u"
    by (cases u) (simp_all only: a evaluate_old.simps(1))
  then show ?thesis by (simp add: Tsit5Interpolation_init_def)
qed

text \<open>
  C10: in the older generation the divisor of the rescaling is 1 when the query time
  is the \<open>t0\<close> of the segment, whatever \<open>t1\<close> is, so \<open>evaluate\<close> at \<open>t0\<close> returns \<open>y0\<close>
  also on a segment of zero width.
\<close>

theorem evaluate_old_guard:
  assumes "declared_shapes (y0 s) (k s)"
  shows "rescale_div_old s (t0 s) = 1 \<and> evaluate_old s (t0 s) None = Inr (y0 s)"
  using evaluate_old_left [OF assms] by (simp add: rescale_div_old_def del: evaluate_old.simps)

theorem evaluate_old_guard_witness:
  "declared_shapes [1, 2] [[1, 0], [0, 1], [2, 2], [3, 1], [1, 3], [5, 8], [13, 21]]
   \<and> rescale_div_old \<lparr>t0 = 2, t1 = 2, y0 = [1, 2],
         k = [[1, 0], [0, 1], [2, 2], [3, 1], [1, 3], [5, 8], [13, 21]], y1 = [4, 5]\<rparr> 2 = 1
   \<and> evaluate_old \<lparr>t0 = 2, t1 = 2, y0 = [1, 2],
         k = [[1, 0], [0, 1], [2, 2], [3, 1], [1, 3], [5, 8], [13, 21]], y1 = [4, 5]\<rparr> 2 None
       = Inr [1, 2]"
  using evaluate_old_guard [of
      "\<lparr>t0 = 2, t1 = 2, y0 = [1, 2],
         k = [[1, 0], [0, 1], [2, 2], [3, 1], [1, 3], [5, 8], [13, 21]], y1 = [4, 5]\<rparr>"]
  by (simp add: declared_shapes_def del: evaluate_old.simps)

end
